theory Spec2Isabelle
  imports Complex_Main "HOL-Library.AList"
begin

section \<open>JavaScript values and responses\<close>

text \<open>
  The API routes answer with \<^verbatim>\<open>NextResponse.json(body, { status })\<close>. A body is a JSON
  value; object members keep the order of the object literal.
\<close>

datatype json =
    JNull | JBool bool | JNum rat | JStr string | JArr "json list" | JObj "(string \<times> json) list"

record response =
  status :: nat
  body :: json

definition NextResponse_json :: "json \<Rightarrow> nat \<Rightarrow> response" where
  "NextResponse_json b s = \<lparr>status = s, body = b\<rparr>"

definition error_json :: "string \<Rightarrow> nat \<Rightarrow> response" where
  "error_json msg s = NextResponse_json (JObj [(''error'', JStr msg)]) s"

text \<open>\<^verbatim>\<open>NextResponse.json({ received: true })\<close>: the status defaults to 200.\<close>

definition received :: response where
  "received = NextResponse_json (JObj [(''received'', JBool True)]) 200"

text \<open>
  A value that is a string, \<^verbatim>\<open>undefined\<close> or \<^verbatim>\<open>null\<close> is \<open>string option\<close>. JavaScript
  treats the missing value and the empty string as false in a condition.
\<close>

definition truthy :: "string option \<Rightarrow> bool" where
  "truthy v = (case v of None \<Rightarrow> False | Some s \<Rightarrow> s \<noteq> [])"

text \<open>\<^verbatim>\<open>`${v}`\<close> in a template literal: a missing value is written \<^verbatim>\<open>undefined\<close>.\<close>

definition template :: "string option \<Rightarrow> string" where
  "template v = (case v of None \<Rightarrow> ''undefined'' | Some s \<Rightarrow> s)"

section \<open>Objects of the billing system\<close>

text \<open>
  The fields of \<^verbatim>\<open>event.data.object\<close> (a subscription, an invoice, a payment intent, a setup
  intent or a checkout session) that the handler reads. The handler casts the object without
  a check, so one record carries them all; a field the object does not have is \<open>None\<close>.
\<close>

record stripe_object =
  obj_id :: string
  customer :: "string option"
  obj_status :: string
  subscription :: "string option"
  billing_reason :: "string option"
  metadata :: "(string \<times> string) list"

record event =
  ev_id :: string
  ev_type :: string
  data_object :: stripe_object

text \<open>
  The other objects of the billing system, with the fields the routes read. A number that
  may be \<^verbatim>\<open>null\<close> is an \<open>option\<close>; \<^verbatim>\<open>percent_off\<close> may have a fractional part. The list calls
  are made with \<^verbatim>\<open>limit: 1\<close> and answer the list \<^verbatim>\<open>data\<close>.
\<close>

record setup_intent =
  si_status :: string
  payment_method :: "string option"
  si_customer :: "string option"

record promotion_code =
  pc_id :: string
  pc_code :: string
  expires_at :: "int option"
  pc_coupon :: string

record applies_to =
  products :: "string list option"
  prices :: "string list option"

record coupon =
  cp_id :: string
  amount_off :: "int option"
  percent_off :: "rat option"
  applies_to :: "applies_to option"

record price =
  price_product :: string
  unit_amount :: "int option"
  recurring_interval :: "string option"

record product =
  name :: string

record created_subscription =
  sub_id :: string
  sub_status :: string
  current_period_start :: "nat option"
  current_period_end :: "nat option"
  created :: nat

record subscription_params =
  sp_customer :: "string option"
  sp_price :: string
  default_payment_method :: string
  discounts :: "string list"

record setup_intent_params =
  sip_customer :: string
  sip_metadata :: "(string \<times> string) list"

record created_setup_intent =
  csi_id :: string
  client_secret :: "string option"

section \<open>The key-value store\<close>

text \<open>
  A Redis hash is a list of field/value pairs without repeated fields. The state of the
  world a request runs in holds the string keys (the customer index), the hash keys (the
  subscription and credit records), the calls made to the store and to the billing system so
  far, and the number of times the clock has been read.
\<close>

type_synonym hash = "(string \<times> string) list"

datatype redis_call = Get string | HGetAll string | HSet string hash | Del string

datatype stripe_call =
    SubscriptionsRetrieve string
  | SubscriptionsCancel string
  | SubscriptionsCreate subscription_params
  | SetupIntentsRetrieve string
  | SetupIntentsCreate setup_intent_params
  | CustomersList string
  | CustomersCreate string
  | PricesRetrieve string
  | ProductsRetrieve string
  | PromotionCodesList string
  | CouponsRetrieve string

record world =
  strings :: "string \<rightharpoonup> string"
  hashes :: "string \<rightharpoonup> hash"
  redis_calls :: "redis_call list"
  stripe_calls :: "stripe_call list"
  ticks :: nat

text \<open>
  Modelled from the spec: the store adapter \<^verbatim>\<open>@/lib/redis\<close> (the client \<^verbatim>\<open>redis\<close>, \<^verbatim>\<open>KEYS\<close> and
  \<^verbatim>\<open>creditUtils\<close>) is not among the sources. The spec gives its contract: hash-map get, set
  and delete over namespaced string keys, a set that merges the given fields into the stored
  hash without clearing the others, and the key layout \<^verbatim>\<open>user:{userId}:subscription\<close>,
  \<^verbatim>\<open>user:{userId}:credits\<close>. \<^verbatim>\<open>hgetall\<close> answers \<^verbatim>\<open>null\<close> for a key that holds no field, which
  is what both routes test its result for. The definitions of this section are those of
  calls that answer; the calls that throw come with the webhook route below.
\<close>

definition USER_SUBSCRIPTION :: "string \<Rightarrow> string" where
  "USER_SUBSCRIPTION userId = ''user:'' @ userId @ '':subscription''"

definition USER_CREDITS :: "string \<Rightarrow> string" where
  "USER_CREDITS userId = ''user:'' @ userId @ '':credits''"

text \<open>Every call to the store is recorded.\<close>

definition called :: "redis_call \<Rightarrow> world \<Rightarrow> world" where
  "called c w = w\<lparr>redis_calls := redis_calls w @ [c]\<rparr>"

text \<open>Modelled from the spec: \<^verbatim>\<open>redis.get\<close>, the value of a string key, or \<^verbatim>\<open>null\<close>.\<close>

definition redis_get :: "string \<Rightarrow> world \<Rightarrow> string option \<times> world" where
  "redis_get k w = (strings w k, called (Get k) w)"

text \<open>
  Modelled from the spec: \<^verbatim>\<open>redis.hgetall\<close>, all fields of a hash, or \<^verbatim>\<open>null\<close> when the key
  holds none.
\<close>

definition redis_hgetall :: "string \<Rightarrow> world \<Rightarrow> hash option \<times> world" where
  "redis_hgetall k w =
     ((case hashes w k of None \<Rightarrow> None | Some h \<Rightarrow> if h = [] then None else Some h),
      called (HGetAll k) w)"

text \<open>
  Modelled from the spec: \<^verbatim>\<open>redis.hset\<close> merges the given fields into the hash, in the order
  of the object literal; a field written twice keeps its place and takes the later value.
\<close>

definition hset_fields :: "hash \<Rightarrow> (string \<times> string) list \<Rightarrow> hash" where
  "hset_fields h fs = foldl (\<lambda>acc (f, v). AList.update f v acc) h fs"

definition redis_hset :: "string \<Rightarrow> (string \<times> string) list \<Rightarrow> world \<Rightarrow> world" where
  "redis_hset k fs w =
     called (HSet k fs)
       (w\<lparr>hashes := (hashes w)(k \<mapsto> hset_fields (case hashes w k of None \<Rightarrow> [] | Some h \<Rightarrow> h) fs)\<rparr>)"

text \<open>Modelled from the spec: \<^verbatim>\<open>redis.del\<close> removes the key with all it holds.\<close>

definition redis_del :: "string \<Rightarrow> world \<Rightarrow> world" where
  "redis_del k w =
     called (Del k) (w\<lparr>strings := (strings w)(k := None), hashes := (hashes w)(k := None)\<rparr>)"

text \<open>\<^verbatim>\<open>HGET key field\<close>, used to state what a record holds.\<close>

definition hfield :: "world \<Rightarrow> string \<Rightarrow> string \<Rightarrow> string option" where
  "hfield w k f = (case hashes w k of None \<Rightarrow> None | Some h \<Rightarrow> map_of h f)"

text \<open>Every call to the billing system is recorded.\<close>

definition stripe_called :: "stripe_call \<Rightarrow> world \<Rightarrow> world" where
  "stripe_called c w = w\<lparr>stripe_calls := stripe_calls w @ [c]\<rparr>"

section \<open>The surroundings of the routes\<close>

text \<open>
  What a route finds around it: the two environment variables, the client of the billing
  system (a call answers \<open>Inl message\<close> when it throws), the clock and the arithmetic of
  JavaScript numbers. The \<open>k\<close>-th reading of the clock is \<open>now_iso k\<close> as
  \<^verbatim>\<open>new Date().toISOString()\<close> and \<open>Date_now k\<close>, in milliseconds, as \<^verbatim>\<open>Date.now()\<close>.

  A JavaScript number is a double; it is carried as the rational it denotes. Two
  expressions of the setup-intent route compute with a fraction, and a double operation
  rounds its result, so their values are not those of the rationals (in doubles,
  7.142857142857142 percent of 7 is 0.5, which \<^verbatim>\<open>Math.round\<close> takes to 1, where the exact
  product is below 0.5). They are taken from the platform:
  \<open>Math_round_percent a pct\<close> is the value of \<^verbatim>\<open>Math.round(a * (pct / 100))\<close> and
  \<open>divide_by_100 x\<close> the value of \<^verbatim>\<open>x / 100\<close>. Nothing is assumed of the two functions.
\<close>

record environment =
  STRIPE_SECRET_KEY :: "string option"
  STRIPE_WEBHOOK_SECRET :: "string option"
  constructEvent :: "string \<Rightarrow> string \<Rightarrow> string \<Rightarrow> string + event"
  subscriptions_retrieve :: "string \<Rightarrow> string + stripe_object"
  subscriptions_cancel :: "string \<Rightarrow> string + unit"
  subscriptions_create :: "subscription_params \<Rightarrow> string + created_subscription"
  setupIntents_retrieve :: "string \<Rightarrow> string + setup_intent"
  setupIntents_create :: "setup_intent_params \<Rightarrow> string + created_setup_intent"
  customers_list :: "string \<Rightarrow> string + string list"
  customers_create :: "string \<Rightarrow> string + string"
  prices_retrieve :: "string \<Rightarrow> string + price"
  products_retrieve :: "string \<Rightarrow> string + product"
  promotionCodes_list :: "string \<Rightarrow> string + promotion_code list"
  coupons_retrieve :: "string \<Rightarrow> string + coupon"
  now_iso :: "nat \<Rightarrow> string"
  Date_now :: "nat \<Rightarrow> nat"
  Math_round_percent :: "int \<Rightarrow> rat \<Rightarrow> int"
  divide_by_100 :: "rat \<Rightarrow> rat"

definition new_Date_toISOString :: "environment \<Rightarrow> world \<Rightarrow> string \<times> world" where
  "new_Date_toISOString env w = (now_iso env (ticks w), w\<lparr>ticks := Suc (ticks w)\<rparr>)"

definition Date_now_ms :: "environment \<Rightarrow> world \<Rightarrow> nat \<times> world" where
  "Date_now_ms env w = (Date_now env (ticks w), w\<lparr>ticks := Suc (ticks w)\<rparr>)"

section \<open>The webhook route: \<^verbatim>\<open>app/api/webhooks/route.ts\<close>\<close>

text \<open>
  A request carries the header \<^verbatim>\<open>stripe-signature\<close>, if any, and its raw body, \<open>Inl\<close> when
  reading the body throws. The helper \<^verbatim>\<open>updateUserSubscription\<close> of lines 31 to 135 is called
  by no case of the switch and is left out.
\<close>

record webhook_request =
  stripe_signature :: "string option"
  raw_body :: "string + string"

text \<open>\<^verbatim>\<open>const webhookSecret = process.env.STRIPE_WEBHOOK_SECRET || ''\<close>, line 19.\<close>

definition webhookSecret :: "environment \<Rightarrow> string" where
  "webhookSecret env = (case STRIPE_WEBHOOK_SECRET env of None \<Rightarrow> [] | Some s \<Rightarrow> s)"

text \<open>
  Modelled from the spec: \<^verbatim>\<open>creditUtils.setZeroCredits\<close> is not among the sources. The spec's
  \<^verbatim>\<open>zero(userId)\<close> sets \<^verbatim>\<open>total=0\<close>, \<^verbatim>\<open>used=0\<close>, clears \<^verbatim>\<open>resetDate\<close> and stamps \<^verbatim>\<open>lastUpdate\<close>.
\<close>

definition setZeroCredits :: "environment \<Rightarrow> string \<Rightarrow> world \<Rightarrow> world" where
  "setZeroCredits env userId w =
     (case new_Date_toISOString env w of (now, w1) \<Rightarrow>
        redis_hset (USER_CREDITS userId)
          [(''total'', ''0''), (''used'', ''0''), (''resetDate'', ''''), (''lastUpdate'', now)] w1)"

text \<open>\<^verbatim>\<open>case 'customer.subscription.updated'\<close>, lines 210 to 262.\<close>

definition on_subscription_updated :: "environment \<Rightarrow> stripe_object \<Rightarrow> world \<Rightarrow> response \<times> world" where
  "on_subscription_updated env subscr w =
     (case customer subscr of
        None \<Rightarrow> (error_json ''No customer ID found'' 400, w)
      | Some customerId \<Rightarrow>
          if customerId = [] then (error_json ''No customer ID found'' 400, w)
          else
            (case redis_get (''stripe:customer:'' @ customerId) w of (userKey, w1) \<Rightarrow>
               (case userKey of
                  None \<Rightarrow> (received, w1)
                | Some userId \<Rightarrow>
                    if userId = [] then (received, w1)
                    else
                      (case redis_hgetall (USER_SUBSCRIPTION userId) w1 of (currentSubscriptionData, w2) \<Rightarrow>
                       let currentStatus =
                             (case currentSubscriptionData of None \<Rightarrow> None | Some h \<Rightarrow> map_of h ''status'')
                       in
                       (case new_Date_toISOString env w2 of (lastUpdated, w3) \<Rightarrow>
                        let updateData0 =
                              [(''status'', obj_status subscr),
                               (''lastUpdated'', lastUpdated),
                               (''stripeSubscriptionStatus'', obj_status subscr)]
                        in
                        (case
                           (if currentStatus = Some ''trialing'' \<and> obj_status subscr = ''active''
                            then
                              (case new_Date_toISOString env w3 of (trialEndedAt, w4) \<Rightarrow>
                               case new_Date_toISOString env w4 of (trialToActiveDate, w5) \<Rightarrow>
                                 (updateData0 @ [(''trialEndedAt'', trialEndedAt),
                                                 (''trialToActiveDate'', trialToActiveDate)], w5))
                            else (updateData0, w3))
                         of (updateData1, w5) \<Rightarrow>
                        (case
                           (if obj_status subscr = ''canceled''
                            then
                              (case new_Date_toISOString env w5 of (canceledAt, w6) \<Rightarrow>
                                 (updateData1 @ [(''canceledAt'', canceledAt)], w6))
                            else (updateData1, w5))
                         of (updateData2, w6) \<Rightarrow>
                        (case
                           (if obj_status subscr = ''unpaid'' \<or> obj_status subscr = ''past_due''
                            then
                              (case new_Date_toISOString env w6 of (unpaidAt, w7) \<Rightarrow>
                                 (updateData2 @ [(''unpaidAt'', unpaidAt)], w7))
                            else (updateData2, w6))
                         of (updateData, w7) \<Rightarrow>
                           (received, redis_hset (USER_SUBSCRIPTION userId) updateData w7)))))))))"

text \<open>\<^verbatim>\<open>case 'customer.subscription.deleted'\<close>, lines 264 to 325.\<close>

definition on_subscription_deleted :: "environment \<Rightarrow> stripe_object \<Rightarrow> world \<Rightarrow> response \<times> world" where
  "on_subscription_deleted env subscr w =
     (case customer subscr of
        None \<Rightarrow> (error_json ''No customer ID found'' 400, w)
      | Some customerId \<Rightarrow>
          if customerId = [] then (error_json ''No customer ID found'' 400, w)
          else
            (case redis_get (''stripe:customer:'' @ customerId) w of (userKey, w1) \<Rightarrow>
               (case userKey of
                  None \<Rightarrow> (received, w1)
                | Some userId \<Rightarrow>
                    if userId = [] then (received, w1)
                    else
                      (case redis_hgetall (USER_SUBSCRIPTION userId) w1 of (subscriptionData, w2) \<Rightarrow>
                         (case subscriptionData of
                            None \<Rightarrow> (received, w2)
                          | Some _ \<Rightarrow>
                              (case new_Date_toISOString env w2 of (now, w3) \<Rightarrow>
                               let w4 = setZeroCredits env userId w3;
                                   w5 = redis_hset (USER_SUBSCRIPTION userId)
                                          [(''plan'', ''No Active Plan''),
                                           (''planType'', ''NONE''),
                                           (''status'', ''canceled''),
                                           (''amount'', ''0''),
                                           (''interval'', ''month''),
                                           (''lastUpdated'', now),
                                           (''canceledAt'', now),
                                           (''stripeCustomerId'', ''''),
                                           (''stripeSubscriptionId'', '''')] w4;
                                   w6 = redis_hset (USER_CREDITS userId)
                                          [(''total'', ''0''),
                                           (''used'', ''0''),
                                           (''resetDate'', ''''),
                                           (''lastUpdate'', now),
                                           (''subscriptionDeleted'', ''true'')] w5
                               in (received, w6)))))))"

text \<open>\<^verbatim>\<open>case 'customer.subscription.trial_will_end'\<close>, lines 327 to 351.\<close>

definition on_trial_will_end :: "environment \<Rightarrow> stripe_object \<Rightarrow> world \<Rightarrow> response \<times> world" where
  "on_trial_will_end env subscr w =
     (case customer subscr of
        None \<Rightarrow> (error_json ''No customer ID found'' 400, w)
      | Some customerId \<Rightarrow>
          if customerId = [] then (error_json ''No customer ID found'' 400, w)
          else
            (case redis_get (''stripe:customer:'' @ customerId) w of (userKey, w1) \<Rightarrow>
               (received, w1)))"

text \<open>
  \<^verbatim>\<open>case 'invoice.payment_succeeded'\<close>, lines 353 to 413. A throwing
  \<^verbatim>\<open>stripe.subscriptions.retrieve\<close> leaves the switch for the outer \<^verbatim>\<open>catch\<close>: the
  result is then \<open>Inl message\<close>.
\<close>

definition on_invoice_payment_succeeded ::
  "environment \<Rightarrow> stripe_object \<Rightarrow> world \<Rightarrow> (string + response) \<times> world" where
  "on_invoice_payment_succeeded env invoice w =
     (if truthy (subscription invoice) then
        (let subscriptionId = template (subscription invoice);
             w1 = stripe_called (SubscriptionsRetrieve subscriptionId) w
         in case subscriptions_retrieve env subscriptionId of
              Inl message \<Rightarrow> (Inl message, w1)
            | Inr sub \<Rightarrow>
                (case redis_get (''stripe:customer:'' @ template (customer sub)) w1 of (userKey, w2) \<Rightarrow>
                   if truthy userKey then
                     (let userId = template userKey in
                      case redis_hgetall (USER_SUBSCRIPTION userId) w2 of (currentSubscriptionData, w3) \<Rightarrow>
                        if billing_reason invoice = Some ''subscription_cycle'' then
                          (case new_Date_toISOString env w3 of (lastUpdated, w4) \<Rightarrow>
                           case new_Date_toISOString env w4 of (trialEndedAt, w5) \<Rightarrow>
                           case new_Date_toISOString env w5 of (lastPaymentDate, w6) \<Rightarrow>
                             (Inr received,
                              redis_hset (USER_SUBSCRIPTION userId)
                                [(''status'', ''active''),
                                 (''lastUpdated'', lastUpdated),
                                 (''trialEndedAt'', trialEndedAt),
                                 (''lastPaymentDate'', lastPaymentDate),
                                 (''stripeSubscriptionStatus'', obj_status sub)] w6))
                        else if billing_reason invoice = Some ''subscription_create'' then
                          (case new_Date_toISOString env w3 of (lastUpdated, w4) \<Rightarrow>
                           case new_Date_toISOString env w4 of (initialPaymentDate, w5) \<Rightarrow>
                             (Inr received,
                              redis_hset (USER_SUBSCRIPTION userId)
                                [(''status'', obj_status sub),
                                 (''lastUpdated'', lastUpdated),
                                 (''initialPaymentDate'', initialPaymentDate),
                                 (''stripeSubscriptionStatus'', obj_status sub)] w5))
                        else
                          (case new_Date_toISOString env w3 of (lastUpdated, w4) \<Rightarrow>
                           case new_Date_toISOString env w4 of (lastPaymentDate, w5) \<Rightarrow>
                             (Inr received,
                              redis_hset (USER_SUBSCRIPTION userId)
                                [(''status'', obj_status sub),
                                 (''lastUpdated'', lastUpdated),
                                 (''lastPaymentDate'', lastPaymentDate),
                                 (''stripeSubscriptionStatus'', obj_status sub)] w5)))
                   else (Inr received, w2)))
      else (Inr received, w))"

text \<open>\<^verbatim>\<open>case 'invoice.payment_failed'\<close>, lines 415 to 443.\<close>

definition on_invoice_payment_failed ::
  "environment \<Rightarrow> stripe_object \<Rightarrow> world \<Rightarrow> (string + response) \<times> world" where
  "on_invoice_payment_failed env invoice w =
     (if truthy (subscription invoice) \<and> billing_reason invoice = Some ''subscription_cycle'' then
        (let subscriptionId = template (subscription invoice);
             w1 = stripe_called (SubscriptionsRetrieve subscriptionId) w
         in case subscriptions_retrieve env subscriptionId of
              Inl message \<Rightarrow> (Inl message, w1)
            | Inr sub \<Rightarrow>
                (case redis_get (''stripe:customer:'' @ template (customer sub)) w1 of (userKey, w2) \<Rightarrow>
                   if truthy userKey then
                     (let userId = template userKey;
                          w3 = setZeroCredits env userId w2
                      in case new_Date_toISOString env w3 of (lastUpdated, w4) \<Rightarrow>
                         case new_Date_toISOString env w4 of (paymentFailedAt, w5) \<Rightarrow>
                           (Inr received,
                            redis_hset (USER_SUBSCRIPTION userId)
                              [(''status'', ''past_due''),
                               (''lastUpdated'', lastUpdated),
                               (''paymentFailedAt'', paymentFailedAt)] w5))
                   else (Inr received, w2)))
      else (Inr received, w))"

text \<open>\<^verbatim>\<open>case 'payment_intent.payment_failed'\<close>, lines 445 to 472.\<close>

definition on_payment_intent_payment_failed ::
  "environment \<Rightarrow> stripe_object \<Rightarrow> world \<Rightarrow> response \<times> world" where
  "on_payment_intent_payment_failed env paymentIntent w =
     (if map_of (metadata paymentIntent) ''isTrial'' = Some ''true'' then
        (let userId = map_of (metadata paymentIntent) ''userId'' in
         if truthy userId then
           (let w1 = setZeroCredits env (template userId) w in
            case new_Date_toISOString env w1 of (lastUpdated, w2) \<Rightarrow>
            case new_Date_toISOString env w2 of (paymentFailedAt, w3) \<Rightarrow>
              (received,
               redis_hset (USER_SUBSCRIPTION (template userId))
                 [(''status'', ''payment_failed''),
                  (''lastUpdated'', lastUpdated),
                  (''paymentFailedAt'', paymentFailedAt),
                  (''failureReason'', ''Payment authorization failed during trial signup'')] w3))
         else (received, w))
      else (received, w))"

text \<open>\<^verbatim>\<open>case 'payment_intent.canceled'\<close>, lines 474 to 501.\<close>

definition on_payment_intent_canceled ::
  "environment \<Rightarrow> stripe_object \<Rightarrow> world \<Rightarrow> response \<times> world" where
  "on_payment_intent_canceled env paymentIntent w =
     (if map_of (metadata paymentIntent) ''isTrial'' = Some ''true'' then
        (let userId = map_of (metadata paymentIntent) ''userId'' in
         if truthy userId then
           (let w1 = setZeroCredits env (template userId) w in
            case new_Date_toISOString env w1 of (lastUpdated, w2) \<Rightarrow>
            case new_Date_toISOString env w2 of (canceledAt, w3) \<Rightarrow>
              (received,
               redis_hset (USER_SUBSCRIPTION (template userId))
                 [(''status'', ''canceled''),
                  (''lastUpdated'', lastUpdated),
                  (''canceledAt'', canceledAt),
                  (''cancelReason'', ''Payment intent canceled during trial signup'')] w3))
         else (received, w))
      else (received, w))"

text \<open>
  \<^verbatim>\<open>case 'setup_intent.setup_failed'\<close>, lines 503 to 545. The inner \<^verbatim>\<open>try\<close> swallows a
  throwing billing-system call, keeping what was done before it.
\<close>

definition on_setup_intent_setup_failed ::
  "environment \<Rightarrow> stripe_object \<Rightarrow> world \<Rightarrow> response \<times> world" where
  "on_setup_intent_setup_failed env setupIntent w =
     (if map_of (metadata setupIntent) ''is_trial_setup'' = Some ''true'' then
        (let subscriptionId = map_of (metadata setupIntent) ''subscription_id'' in
         if truthy subscriptionId then
           (let w1 = stripe_called (SubscriptionsRetrieve (template subscriptionId)) w in
            case subscriptions_retrieve env (template subscriptionId) of
              Inl message \<Rightarrow> (received, w1)
            | Inr sub \<Rightarrow>
                (case redis_get (''stripe:customer:'' @ template (customer sub)) w1 of (userKey, w2) \<Rightarrow>
                   if truthy userKey then
                     (let userId = template userKey;
                          w3 = stripe_called (SubscriptionsCancel (template subscriptionId)) w2
                      in case subscriptions_cancel env (template subscriptionId) of
                           Inl message \<Rightarrow> (received, w3)
                         | Inr _ \<Rightarrow>
                             (let w4 = setZeroCredits env userId w3 in
                              case new_Date_toISOString env w4 of (lastUpdated, w5) \<Rightarrow>
                              case new_Date_toISOString env w5 of (setupFailedAt, w6) \<Rightarrow>
                                (received,
                                 redis_hset (USER_SUBSCRIPTION userId)
                                   [(''status'', ''setup_failed''),
                                    (''lastUpdated'', lastUpdated),
                                    (''setupFailedAt'', setupFailedAt),
                                    (''failureReason'',
                                     ''Payment method setup failed during trial signup'')] w6)))
                   else (received, w2)))
         else (received, w))
      else (received, w))"

text \<open>The \<^verbatim>\<open>switch (event.type)\<close> of lines 201 to 569.\<close>

definition ok :: "response \<times> world \<Rightarrow> (string + response) \<times> world" where
  "ok rw = (Inr (fst rw), snd rw)"

definition dispatch :: "environment \<Rightarrow> event \<Rightarrow> world \<Rightarrow> (string + response) \<times> world" where
  "dispatch env event w =
     (if ev_type event = ''checkout.session.completed'' then (Inr received, w)
      else if ev_type event = ''customer.subscription.updated''
        then ok (on_subscription_updated env (data_object event) w)
      else if ev_type event = ''customer.subscription.deleted''
        then ok (on_subscription_deleted env (data_object event) w)
      else if ev_type event = ''customer.subscription.trial_will_end''
        then ok (on_trial_will_end env (data_object event) w)
      else if ev_type event = ''invoice.payment_succeeded''
        then on_invoice_payment_succeeded env (data_object event) w
      else if ev_type event = ''invoice.payment_failed''
        then on_invoice_payment_failed env (data_object event) w
      else if ev_type event = ''payment_intent.payment_failed''
        then ok (on_payment_intent_payment_failed env (data_object event) w)
      else if ev_type event = ''payment_intent.canceled''
        then ok (on_payment_intent_canceled env (data_object event) w)
      else if ev_type event = ''setup_intent.setup_failed''
        then ok (on_setup_intent_setup_failed env (data_object event) w)
      else if ev_type event = ''payment_intent.requires_action'' then (Inr received, w)
      else (Inr received, w))"

text \<open>
  \<^verbatim>\<open>POST\<close>, lines 137 to 574: the configuration checks, the signature header, the raw body
  (\<open>Inl\<close> when reading it throws), the verification of the signature, the switch, and the
  outer \<^verbatim>\<open>catch\<close>.
\<close>

definition POST_webhooks :: "environment \<Rightarrow> webhook_request \<Rightarrow> world \<Rightarrow> response \<times> world" where
  "POST_webhooks env request w =
     (if \<not> truthy (STRIPE_SECRET_KEY env) then (error_json ''Stripe configuration error'' 500, w)
      else if webhookSecret env = [] then (error_json ''Webhook secret not configured'' 500, w)
      else
        (case stripe_signature request of
           None \<Rightarrow> (error_json ''No Stripe signature found'' 400, w)
         | Some signature \<Rightarrow>
             if signature = [] then (error_json ''No Stripe signature found'' 400, w)
             else
               (case raw_body request of
                  Inl bodyError \<Rightarrow> (error_json ''Failed to read request body'' 400, w)
                | Inr rawBody \<Rightarrow>
                    (case constructEvent env rawBody signature (webhookSecret env) of
                       Inl message \<Rightarrow>
                         (NextResponse_json
                            (JObj [(''error'', JStr (''Webhook Error: '' @ message)),
                                   (''debug'',
                                    JObj [(''hasSignature'', JBool True),
                                          (''hasSecret'', JBool True),
                                          (''bodyLength'', JNum (of_nat (length rawBody))),
                                          (''secretPrefix'', JStr (take 10 (webhookSecret env)))])])
                            400, w)
                     | Inr event \<Rightarrow>
                         (case dispatch env event w of
                            (Inr r, w') \<Rightarrow> (r, w')
                          | (Inl message, w') \<Rightarrow>
                              (error_json
                                 (if message = [] then ''Webhook handler failed'' else message)
                                 500, w'))))))"

section \<open>The webhook route when a call to the store throws\<close>

text \<open>
  Every call to the store is awaited inside the \<^verbatim>\<open>try\<close> of line 138. When one throws, the
  rest of its handler is skipped and the \<^verbatim>\<open>catch\<close> of lines 570 to 573 answers with status
  500; only the handler of \<^verbatim>\<open>setup_intent.setup_failed\<close> has a \<^verbatim>\<open>try\<close> of its own around its
  calls. The handlers of the previous section are the route with a store that answers.
  This section follows the same lines of the route with a store that may throw.

  Which calls throw is a parameter: \<open>store_error n\<close> is \<open>Some message\<close> when the call made
  to the store after \<open>n\<close> earlier ones throws an error with that message (the empty message
  for a thrown value that has none), and \<open>None\<close> when that call answers.

  Modelled from the spec: the store adapter is not among the sources. A call that throws
  is recorded like any other and leaves the store as it was; a call that answers does what
  the definitions of the section on the store say.
\<close>

type_synonym store_errors = "nat \<Rightarrow> string option"

definition redis_get_throwing ::
  "store_errors \<Rightarrow> string \<Rightarrow> world \<Rightarrow> (string + string option) \<times> world" where
  "redis_get_throwing store_error k w =
     (case store_error (length (redis_calls w)) of
        Some message \<Rightarrow> (Inl message, called (Get k) w)
      | None \<Rightarrow> (case redis_get k w of (v, w1) \<Rightarrow> (Inr v, w1)))"

definition redis_hgetall_throwing ::
  "store_errors \<Rightarrow> string \<Rightarrow> world \<Rightarrow> (string + hash option) \<times> world" where
  "redis_hgetall_throwing store_error k w =
     (case store_error (length (redis_calls w)) of
        Some message \<Rightarrow> (Inl message, called (HGetAll k) w)
      | None \<Rightarrow> (case redis_hgetall k w of (v, w1) \<Rightarrow> (Inr v, w1)))"

definition redis_hset_throwing ::
  "store_errors \<Rightarrow> string \<Rightarrow> (string \<times> string) list \<Rightarrow> world \<Rightarrow> (string + unit) \<times> world" where
  "redis_hset_throwing store_error k fs w =
     (case store_error (length (redis_calls w)) of
        Some message \<Rightarrow> (Inl message, called (HSet k fs) w)
      | None \<Rightarrow> (Inr (), redis_hset k fs w))"

text \<open>
  Modelled from the spec: \<^verbatim>\<open>creditUtils.setZeroCredits\<close>, as above, its one write to the store
  being a call that may throw.
\<close>

definition setZeroCredits_throwing ::
  "store_errors \<Rightarrow> environment \<Rightarrow> string \<Rightarrow> world \<Rightarrow> (string + unit) \<times> world" where
  "setZeroCredits_throwing store_error env userId w =
     (case new_Date_toISOString env w of (now, w1) \<Rightarrow>
        redis_hset_throwing store_error (USER_CREDITS userId)
          [(''total'', ''0''), (''used'', ''0''), (''resetDate'', ''''), (''lastUpdate'', now)] w1)"

text \<open>
  \<^verbatim>\<open>const v = await call; rest\<close>: when the call throws, the rest does not run and the error
  goes on to the enclosing \<^verbatim>\<open>catch\<close>.
\<close>

definition await ::
  "(string + 'a) \<times> world \<Rightarrow> ('a \<Rightarrow> world \<Rightarrow> (string + 'b) \<times> world) \<Rightarrow> (string + 'b) \<times> world" where
  "await call rest =
     (case call of
        (Inl message, w) \<Rightarrow> (Inl message, w)
      | (Inr v, w) \<Rightarrow> rest v w)"

text \<open>\<^verbatim>\<open>case 'customer.subscription.updated'\<close>, lines 210 to 262.\<close>

definition on_subscription_updated_throwing ::
  "store_errors \<Rightarrow> environment \<Rightarrow> stripe_object \<Rightarrow> world \<Rightarrow> (string + response) \<times> world" where
  "on_subscription_updated_throwing store_error env subscr w =
     (case customer subscr of
        None \<Rightarrow> (Inr (error_json ''No customer ID found'' 400), w)
      | Some customerId \<Rightarrow>
          if customerId = [] then (Inr (error_json ''No customer ID found'' 400), w)
          else
            await (redis_get_throwing store_error (''stripe:customer:'' @ customerId) w)
              (\<lambda>userKey w1.
                 case userKey of
                   None \<Rightarrow> (Inr received, w1)
                 | Some userId \<Rightarrow>
                     if userId = [] then (Inr received, w1)
                     else
                       await (redis_hgetall_throwing store_error (USER_SUBSCRIPTION userId) w1)
                         (\<lambda>currentSubscriptionData w2.
                            let currentStatus =
                                  (case currentSubscriptionData of
                                     None \<Rightarrow> None | Some h \<Rightarrow> map_of h ''status'')
                            in
                            (case new_Date_toISOString env w2 of (lastUpdated, w3) \<Rightarrow>
                             let updateData0 =
                                   [(''status'', obj_status subscr),
                                    (''lastUpdated'', lastUpdated),
                                    (''stripeSubscriptionStatus'', obj_status subscr)]
                             in
                             (case
                                (if currentStatus = Some ''trialing'' \<and> obj_status subscr = ''active''
                                 then
                                   (case new_Date_toISOString env w3 of (trialEndedAt, w4) \<Rightarrow>
                                    case new_Date_toISOString env w4 of (trialToActiveDate, w5) \<Rightarrow>
                                      (updateData0 @ [(''trialEndedAt'', trialEndedAt),
                                                      (''trialToActiveDate'', trialToActiveDate)], w5))
                                 else (updateData0, w3))
                              of (updateData1, w5) \<Rightarrow>
                             (case
                                (if obj_status subscr = ''canceled''
                                 then
                                   (case new_Date_toISOString env w5 of (canceledAt, w6) \<Rightarrow>
                                      (updateData1 @ [(''canceledAt'', canceledAt)], w6))
                                 else (updateData1, w5))
                              of (updateData2, w6) \<Rightarrow>
                             (case
                                (if obj_status subscr = ''unpaid'' \<or> obj_status subscr = ''past_due''
                                 then
                                   (case new_Date_toISOString env w6 of (unpaidAt, w7) \<Rightarrow>
                                      (updateData2 @ [(''unpaidAt'', unpaidAt)], w7))
                                 else (updateData2, w6))
                              of (updateData, w7) \<Rightarrow>
                                await (redis_hset_throwing store_error (USER_SUBSCRIPTION userId)
                                         updateData w7)
                                  (\<lambda>_ w8. (Inr received, w8)))))))))"

text \<open>\<^verbatim>\<open>case 'customer.subscription.deleted'\<close>, lines 264 to 325.\<close>

definition on_subscription_deleted_throwing ::
  "store_errors \<Rightarrow> environment \<Rightarrow> stripe_object \<Rightarrow> world \<Rightarrow> (string + response) \<times> world" where
  "on_subscription_deleted_throwing store_error env subscr w =
     (case customer subscr of
        None \<Rightarrow> (Inr (error_json ''No customer ID found'' 400), w)
      | Some customerId \<Rightarrow>
          if customerId = [] then (Inr (error_json ''No customer ID found'' 400), w)
          else
            await (redis_get_throwing store_error (''stripe:customer:'' @ customerId) w)
              (\<lambda>userKey w1.
                 case userKey of
                   None \<Rightarrow> (Inr received, w1)
                 | Some userId \<Rightarrow>
                     if userId = [] then (Inr received, w1)
                     else
                       await (redis_hgetall_throwing store_error (USER_SUBSCRIPTION userId) w1)
                         (\<lambda>subscriptionData w2.
                            case subscriptionData of
                              None \<Rightarrow> (Inr received, w2)
                            | Some _ \<Rightarrow>
                                (case new_Date_toISOString env w2 of (now, w3) \<Rightarrow>
                                   await (setZeroCredits_throwing store_error env userId w3)
                                     (\<lambda>_ w4.
                                        await (redis_hset_throwing store_error (USER_SUBSCRIPTION userId)
                                                 [(''plan'', ''No Active Plan''),
                                                  (''planType'', ''NONE''),
                                                  (''status'', ''canceled''),
                                                  (''amount'', ''0''),
                                                  (''interval'', ''month''),
                                                  (''lastUpdated'', now),
                                                  (''canceledAt'', now),
                                                  (''stripeCustomerId'', ''''),
                                                  (''stripeSubscriptionId'', '''')] w4)
                                          (\<lambda>_ w5.
                                             await (redis_hset_throwing store_error (USER_CREDITS userId)
                                                      [(''total'', ''0''),
                                                       (''used'', ''0''),
                                                       (''resetDate'', ''''),
                                                       (''lastUpdate'', now),
                                                       (''subscriptionDeleted'', ''true'')] w5)
                                               (\<lambda>_ w6. (Inr received, w6))))))))"

text \<open>\<^verbatim>\<open>case 'customer.subscription.trial_will_end'\<close>, lines 327 to 351.\<close>

definition on_trial_will_end_throwing ::
  "store_errors \<Rightarrow> environment \<Rightarrow> stripe_object \<Rightarrow> world \<Rightarrow> (string + response) \<times> world" where
  "on_trial_will_end_throwing store_error env subscr w =
     (case customer subscr of
        None \<Rightarrow> (Inr (error_json ''No customer ID found'' 400), w)
      | Some customerId \<Rightarrow>
          if customerId = [] then (Inr (error_json ''No customer ID found'' 400), w)
          else
            await (redis_get_throwing store_error (''stripe:customer:'' @ customerId) w)
              (\<lambda>userKey w1. (Inr received, w1)))"

text \<open>\<^verbatim>\<open>case 'invoice.payment_succeeded'\<close>, lines 353 to 413.\<close>

definition on_invoice_payment_succeeded_throwing ::
  "store_errors \<Rightarrow> environment \<Rightarrow> stripe_object \<Rightarrow> world \<Rightarrow> (string + response) \<times> world" where
  "on_invoice_payment_succeeded_throwing store_error env invoice w =
     (if truthy (subscription invoice) then
        (let subscriptionId = template (subscription invoice);
             w1 = stripe_called (SubscriptionsRetrieve subscriptionId) w
         in case subscriptions_retrieve env subscriptionId of
              Inl message \<Rightarrow> (Inl message, w1)
            | Inr sub \<Rightarrow>
                await (redis_get_throwing store_error (''stripe:customer:'' @ template (customer sub)) w1)
                  (\<lambda>userKey w2.
                     if truthy userKey then
                       (let userId = template userKey in
                        await (redis_hgetall_throwing store_error (USER_SUBSCRIPTION userId) w2)
                          (\<lambda>currentSubscriptionData w3.
                             if billing_reason invoice = Some ''subscription_cycle'' then
                               (case new_Date_toISOString env w3 of (lastUpdated, w4) \<Rightarrow>
                                case new_Date_toISOString env w4 of (trialEndedAt, w5) \<Rightarrow>
                                case new_Date_toISOString env w5 of (lastPaymentDate, w6) \<Rightarrow>
                                  await (redis_hset_throwing store_error (USER_SUBSCRIPTION userId)
                                           [(''status'', ''active''),
                                            (''lastUpdated'', lastUpdated),
                                            (''trialEndedAt'', trialEndedAt),
                                            (''lastPaymentDate'', lastPaymentDate),
                                            (''stripeSubscriptionStatus'', obj_status sub)] w6)
                                    (\<lambda>_ w7. (Inr received, w7)))
                             else if billing_reason invoice = Some ''subscription_create'' then
                               (case new_Date_toISOString env w3 of (lastUpdated, w4) \<Rightarrow>
                                case new_Date_toISOString env w4 of (initialPaymentDate, w5) \<Rightarrow>
                                  await (redis_hset_throwing store_error (USER_SUBSCRIPTION userId)
                                           [(''status'', obj_status sub),
                                            (''lastUpdated'', lastUpdated),
                                            (''initialPaymentDate'', initialPaymentDate),
                                            (''stripeSubscriptionStatus'', obj_status sub)] w5)
                                    (\<lambda>_ w6. (Inr received, w6)))
                             else
                               (case new_Date_toISOString env w3 of (lastUpdated, w4) \<Rightarrow>
                                case new_Date_toISOString env w4 of (lastPaymentDate, w5) \<Rightarrow>
                                  await (redis_hset_throwing store_error (USER_SUBSCRIPTION userId)
                                           [(''status'', obj_status sub),
                                            (''lastUpdated'', lastUpdated),
                                            (''lastPaymentDate'', lastPaymentDate),
                                            (''stripeSubscriptionStatus'', obj_status sub)] w5)
                                    (\<lambda>_ w6. (Inr received, w6)))))
                     else (Inr received, w2)))
      else (Inr received, w))"

text \<open>\<^verbatim>\<open>case 'invoice.payment_failed'\<close>, lines 415 to 443.\<close>

definition on_invoice_payment_failed_throwing ::
  "store_errors \<Rightarrow> environment \<Rightarrow> stripe_object \<Rightarrow> world \<Rightarrow> (string + response) \<times> world" where
  "on_invoice_payment_failed_throwing store_error env invoice w =
     (if truthy (subscription invoice) \<and> billing_reason invoice = Some ''subscription_cycle'' then
        (let subscriptionId = template (subscription invoice);
             w1 = stripe_called (SubscriptionsRetrieve subscriptionId) w
         in case subscriptions_retrieve env subscriptionId of
              Inl message \<Rightarrow> (Inl message, w1)
            | Inr sub \<Rightarrow>
                await (redis_get_throwing store_error (''stripe:customer:'' @ template (customer sub)) w1)
                  (\<lambda>userKey w2.
                     if truthy userKey then
                       (let userId = template userKey in
                        await (setZeroCredits_throwing store_error env userId w2)
                          (\<lambda>_ w3.
                             case new_Date_toISOString env w3 of (lastUpdated, w4) \<Rightarrow>
                             case new_Date_toISOString env w4 of (paymentFailedAt, w5) \<Rightarrow>
                               await (redis_hset_throwing store_error (USER_SUBSCRIPTION userId)
                                        [(''status'', ''past_due''),
                                         (''lastUpdated'', lastUpdated),
                                         (''paymentFailedAt'', paymentFailedAt)] w5)
                                 (\<lambda>_ w6. (Inr received, w6))))
                     else (Inr received, w2)))
      else (Inr received, w))"

text \<open>\<^verbatim>\<open>case 'payment_intent.payment_failed'\<close>, lines 445 to 472.\<close>

definition on_payment_intent_payment_failed_throwing ::
  "store_errors \<Rightarrow> environment \<Rightarrow> stripe_object \<Rightarrow> world \<Rightarrow> (string + response) \<times> world" where
  "on_payment_intent_payment_failed_throwing store_error env paymentIntent w =
     (if map_of (metadata paymentIntent) ''isTrial'' = Some ''true'' then
        (let userId = map_of (metadata paymentIntent) ''userId'' in
         if truthy userId then
           await (setZeroCredits_throwing store_error env (template userId) w)
             (\<lambda>_ w1.
                case new_Date_toISOString env w1 of (lastUpdated, w2) \<Rightarrow>
                case new_Date_toISOString env w2 of (paymentFailedAt, w3) \<Rightarrow>
                  await (redis_hset_throwing store_error (USER_SUBSCRIPTION (template userId))
                           [(''status'', ''payment_failed''),
                            (''lastUpdated'', lastUpdated),
                            (''paymentFailedAt'', paymentFailedAt),
                            (''failureReason'', ''Payment authorization failed during trial signup'')] w3)
                    (\<lambda>_ w4. (Inr received, w4)))
         else (Inr received, w))
      else (Inr received, w))"

text \<open>\<^verbatim>\<open>case 'payment_intent.canceled'\<close>, lines 474 to 501.\<close>

definition on_payment_intent_canceled_throwing ::
  "store_errors \<Rightarrow> environment \<Rightarrow> stripe_object \<Rightarrow> world \<Rightarrow> (string + response) \<times> world" where
  "on_payment_intent_canceled_throwing store_error env paymentIntent w =
     (if map_of (metadata paymentIntent) ''isTrial'' = Some ''true'' then
        (let userId = map_of (metadata paymentIntent) ''userId'' in
         if truthy userId then
           await (setZeroCredits_throwing store_error env (template userId) w)
             (\<lambda>_ w1.
                case new_Date_toISOString env w1 of (lastUpdated, w2) \<Rightarrow>
                case new_Date_toISOString env w2 of (canceledAt, w3) \<Rightarrow>
                  await (redis_hset_throwing store_error (USER_SUBSCRIPTION (template userId))
                           [(''status'', ''canceled''),
                            (''lastUpdated'', lastUpdated),
                            (''canceledAt'', canceledAt),
                            (''cancelReason'', ''Payment intent canceled during trial signup'')] w3)
                    (\<lambda>_ w4. (Inr received, w4)))
         else (Inr received, w))
      else (Inr received, w))"

text \<open>
  \<^verbatim>\<open>case 'setup_intent.setup_failed'\<close>, lines 503 to 545. The inner \<^verbatim>\<open>try\<close> of lines 513 to
  540 holds the calls to the billing system and to the store alike: whichever throws, the
  \<^verbatim>\<open>catch\<close> of line 538 logs it and the event is acknowledged.
\<close>

definition on_setup_intent_setup_failed_throwing ::
  "store_errors \<Rightarrow> environment \<Rightarrow> stripe_object \<Rightarrow> world \<Rightarrow> (string + response) \<times> world" where
  "on_setup_intent_setup_failed_throwing store_error env setupIntent w =
     (if map_of (metadata setupIntent) ''is_trial_setup'' = Some ''true'' then
        (let subscriptionId = map_of (metadata setupIntent) ''subscription_id'' in
         if truthy subscriptionId then
           (case
              (let w1 = stripe_called (SubscriptionsRetrieve (template subscriptionId)) w in
               case subscriptions_retrieve env (template subscriptionId) of
                 Inl message \<Rightarrow> (Inl message, w1)
               | Inr sub \<Rightarrow>
                   await (redis_get_throwing store_error
                            (''stripe:customer:'' @ template (customer sub)) w1)
                     (\<lambda>userKey w2.
                        if truthy userKey then
                          (let userId = template userKey;
                               w3 = stripe_called (SubscriptionsCancel (template subscriptionId)) w2
                           in case subscriptions_cancel env (template subscriptionId) of
                                Inl message \<Rightarrow> (Inl message, w3)
                              | Inr _ \<Rightarrow>
                                  await (setZeroCredits_throwing store_error env userId w3)
                                    (\<lambda>_ w4.
                                       case new_Date_toISOString env w4 of (lastUpdated, w5) \<Rightarrow>
                                       case new_Date_toISOString env w5 of (setupFailedAt, w6) \<Rightarrow>
                                         redis_hset_throwing store_error (USER_SUBSCRIPTION userId)
                                           [(''status'', ''setup_failed''),
                                            (''lastUpdated'', lastUpdated),
                                            (''setupFailedAt'', setupFailedAt),
                                            (''failureReason'',
                                             ''Payment method setup failed during trial signup'')] w6))
                        else (Inr (), w2)))
            of (tried, w') \<Rightarrow> (Inr received, w'))
         else (Inr received, w))
      else (Inr received, w))"

text \<open>The \<^verbatim>\<open>switch (event.type)\<close> of lines 201 to 569.\<close>

definition dispatch_throwing ::
  "store_errors \<Rightarrow> environment \<Rightarrow> event \<Rightarrow> world \<Rightarrow> (string + response) \<times> world" where
  "dispatch_throwing store_error env event w =
     (if ev_type event = ''checkout.session.completed'' then (Inr received, w)
      else if ev_type event = ''customer.subscription.updated''
        then on_subscription_updated_throwing store_error env (data_object event) w
      else if ev_type event = ''customer.subscription.deleted''
        then on_subscription_deleted_throwing store_error env (data_object event) w
      else if ev_type event = ''customer.subscription.trial_will_end''
        then on_trial_will_end_throwing store_error env (data_object event) w
      else if ev_type event = ''invoice.payment_succeeded''
        then on_invoice_payment_succeeded_throwing store_error env (data_object event) w
      else if ev_type event = ''invoice.payment_failed''
        then on_invoice_payment_failed_throwing store_error env (data_object event) w
      else if ev_type event = ''payment_intent.payment_failed''
        then on_payment_intent_payment_failed_throwing store_error env (data_object event) w
      else if ev_type event = ''payment_intent.canceled''
        then on_payment_intent_canceled_throwing store_error env (data_object event) w
      else if ev_type event = ''setup_intent.setup_failed''
        then on_setup_intent_setup_failed_throwing store_error env (data_object event) w
      else if ev_type event = ''payment_intent.requires_action'' then (Inr received, w)
      else (Inr received, w))"

text \<open>
  \<^verbatim>\<open>POST\<close>, lines 137 to 574, and the answer of the outer \<^verbatim>\<open>catch\<close>,
  \<^verbatim>\<open>{ error: error.message || 'Webhook handler failed' }\<close> with status 500.
\<close>

definition handler_failed :: "string \<Rightarrow> response" where
  "handler_failed message =
     error_json (if message = [] then ''Webhook handler failed'' else message) 500"

definition POST_webhooks_throwing ::
  "store_errors \<Rightarrow> environment \<Rightarrow> webhook_request \<Rightarrow> world \<Rightarrow> response \<times> world" where
  "POST_webhooks_throwing store_error env request w =
     (if \<not> truthy (STRIPE_SECRET_KEY env) then (error_json ''Stripe configuration error'' 500, w)
      else if webhookSecret env = [] then (error_json ''Webhook secret not configured'' 500, w)
      else
        (case stripe_signature request of
           None \<Rightarrow> (error_json ''No Stripe signature found'' 400, w)
         | Some signature \<Rightarrow>
             if signature = [] then (error_json ''No Stripe signature found'' 400, w)
             else
               (case raw_body request of
                  Inl bodyError \<Rightarrow> (error_json ''Failed to read request body'' 400, w)
                | Inr rawBody \<Rightarrow>
                    (case constructEvent env rawBody signature (webhookSecret env) of
                       Inl message \<Rightarrow>
                         (NextResponse_json
                            (JObj [(''error'', JStr (''Webhook Error: '' @ message)),
                                   (''debug'',
                                    JObj [(''hasSignature'', JBool True),
                                          (''hasSecret'', JBool True),
                                          (''bodyLength'', JNum (of_nat (length rawBody))),
                                          (''secretPrefix'', JStr (take 10 (webhookSecret env)))])])
                            400, w)
                     | Inr event \<Rightarrow>
                         (case dispatch_throwing store_error env event w of
                            (Inr r, w') \<Rightarrow> (r, w')
                          | (Inl message, w') \<Rightarrow> (handler_failed message, w'))))))"




section \<open>The finalization route: \<^verbatim>\<open>app/api/create-subscription/route.ts\<close>\<close>

text \<open>
  The JSON body of a request to the finalization route or to the setup-intent route, with
  the fields either route reads, and the \<^verbatim>\<open>sub\<close> of the session token that \<^verbatim>\<open>getToken\<close> finds
  for the request. Of \<^verbatim>\<open>promoCodeInfo.discountValue\<close> the record keeps the text that
  \<^verbatim>\<open>String\<close> makes of it when it is truthy. The body is taken as parsed: \<^verbatim>\<open>request.json()\<close>
  throws on a body that is not JSON, which either route answers with status 500 before
  anything else happens.
\<close>

record promo_code_info =
  pci_promotionCode :: "string option"
  discountValue :: "string option"
  discountType :: "string option"

record json_request =
  token_sub :: "string option"
  setupIntentId :: "string option"
  priceId :: "string option"
  promoCodeInfo :: "promo_code_info option"
  promotionCode :: "string option"
  userId :: "string option"

text \<open>\<^verbatim>\<open>String(n)\<close> for a natural number: its decimal digits.\<close>

definition digit :: "nat \<Rightarrow> char" where
  "digit d = ''0123456789'' ! d"

function String_nat :: "nat \<Rightarrow> string" where
  "String_nat n = (if n < 10 then [digit n] else String_nat (n div 10) @ [digit (n mod 10)])"
  by pat_completeness auto
termination
  by (relation "measure id") auto

declare String_nat.simps [simp del]

text \<open>\<^verbatim>\<open>String(n || '')\<close>: a missing or zero number gives the empty text.\<close>

definition String_or_empty :: "nat option \<Rightarrow> string" where
  "String_or_empty v = (case v of None \<Rightarrow> [] | Some n \<Rightarrow> if n = 0 then [] else String_nat n)"

text \<open>\<^verbatim>\<open>s.includes(sub)\<close>: \<open>sub\<close> occurs in \<open>s\<close> as a contiguous piece.\<close>

fun String_includes :: "string \<Rightarrow> string \<Rightarrow> bool" where
  "String_includes [] sub = (sub = [])"
| "String_includes (c # cs) sub = (take (length sub) (c # cs) = sub \<or> String_includes cs sub)"

text \<open>
  Stripe reports a setup intent without a payment method as \<^verbatim>\<open>null\<close>, which a template
  literal writes out as such.
\<close>

definition template_null :: "string option \<Rightarrow> string" where
  "template_null v = (case v of None \<Rightarrow> ''null'' | Some s \<Rightarrow> s)"

text \<open>
  Lines 55 to 92: the coupon to apply, looked up by the promotion code the front end sent.
  \<open>Inl\<close> is a throwing lookup.
\<close>

definition subscription_discounts ::
  "environment \<Rightarrow> promo_code_info option \<Rightarrow> world \<Rightarrow> (string + string list) \<times> world" where
  "subscription_discounts env info w =
     (case info of
        None \<Rightarrow> (Inr [], w)
      | Some i \<Rightarrow>
          if truthy (pci_promotionCode i) then
            (let w1 = stripe_called (PromotionCodesList (template (pci_promotionCode i))) w in
             case promotionCodes_list env (template (pci_promotionCode i)) of
               Inl message \<Rightarrow> (Inl message, w1)
             | Inr [] \<Rightarrow> (Inr [], w1)
             | Inr (found # _) \<Rightarrow> (Inr [pc_coupon found], w1))
          else (Inr [], w))"

text \<open>Lines 115 to 129: the fields written to the subscription record.\<close>

definition subscriptionData ::
  "created_subscription \<Rightarrow> string \<Rightarrow> promo_code_info option \<Rightarrow> (string \<times> string) list" where
  "subscriptionData sub price_id info =
     [(''id'', sub_id sub),
      (''stripeSubscriptionId'', sub_id sub),
      (''status'', sub_status sub),
      (''current_period_start'', String_or_empty (current_period_start sub)),
      (''current_period_end'', String_or_empty (current_period_end sub)),
      (''priceId'', price_id),
      (''created'', String_nat (created sub))]
     @ (case info of
          None \<Rightarrow> []
        | Some i \<Rightarrow>
            [(''promoCodeApplied'', ''true''),
             (''promoCodeValue'', (case discountValue i of None \<Rightarrow> [] | Some v \<Rightarrow> v)),
             (''promoCodeType'', (case discountType i of None \<Rightarrow> [] | Some t \<Rightarrow> t))])"

text \<open>
  Lines 106 to 131: an existing subscription record of the user is deleted, then the new
  fields are written.
\<close>

definition store_subscription ::
  "string \<Rightarrow> created_subscription \<Rightarrow> string \<Rightarrow> promo_code_info option \<Rightarrow> world \<Rightarrow> world" where
  "store_subscription user_id sub price_id info w =
     (case redis_hgetall (USER_SUBSCRIPTION user_id) w of (existingSubscriptionData, w1) \<Rightarrow>
        let w2 = (case existingSubscriptionData of
                    None \<Rightarrow> w1
                  | Some h \<Rightarrow> if length h > 0 then redis_del (USER_SUBSCRIPTION user_id) w1 else w1)
        in redis_hset (USER_SUBSCRIPTION user_id) (subscriptionData sub price_id info) w2)"

text \<open>Lines 139 to 147: the credits of a plan, by the name of its product.\<close>

definition plan_credits :: "string \<Rightarrow> nat" where
  "plan_credits product_name =
     (if product_name \<noteq> [] \<and> String_includes product_name ''Standard'' then 500
      else if product_name \<noteq> [] \<and> String_includes product_name ''Enterprise'' then 2000
      else 20)"

text \<open>Lines 149 to 157: the credit record is written when there are credits to grant.\<close>

definition grant_credits :: "environment \<Rightarrow> string \<Rightarrow> nat \<Rightarrow> world \<Rightarrow> world" where
  "grant_credits env user_id credits w =
     (if credits > 0 then
        (case Date_now_ms env w of (now, w1) \<Rightarrow>
           redis_hset (USER_CREDITS user_id)
             [(''total'', String_nat credits),
              (''available'', String_nat credits),
              (''used'', ''0''),
              (''lastReset'', String_nat now)] w1)
      else w)"

text \<open>
  \<^verbatim>\<open>POST\<close>, lines 14 to 179. Whatever throws inside is a billing-system error; the
  \<^verbatim>\<open>catch\<close> answers its message with status 500, keeping what was done before.
\<close>

definition POST_create_subscription ::
  "environment \<Rightarrow> json_request \<Rightarrow> world \<Rightarrow> response \<times> world" where
  "POST_create_subscription env request w =
     (if \<not> truthy (token_sub request) then (error_json ''Unauthorized'' 401, w)
      else if \<not> truthy (STRIPE_SECRET_KEY env) then (error_json ''Stripe not configured'' 500, w)
      else if \<not> truthy (setupIntentId request) \<or> \<not> truthy (priceId request)
        then (error_json ''Missing required parameters'' 400, w)
      else
        (let user_id = template (token_sub request);
             setup_intent_id = template (setupIntentId request);
             price_id = template (priceId request);
             w1 = stripe_called (SetupIntentsRetrieve setup_intent_id) w
         in case setupIntents_retrieve env setup_intent_id of
              Inl message \<Rightarrow> (error_json message 500, w1)
            | Inr setupIntent \<Rightarrow>
                if si_status setupIntent \<noteq> ''succeeded'' \<or> \<not> truthy (payment_method setupIntent)
                then (error_json (''Invalid setup intent: status='' @ si_status setupIntent
                                   @ '', payment_method='' @ template_null (payment_method setupIntent))
                        400, w1)
                else
                  (case subscription_discounts env (promoCodeInfo request) w1 of
                     (Inl message, w2) \<Rightarrow> (error_json message 500, w2)
                   | (Inr coupons, w2) \<Rightarrow>
                       (let subscriptionParams =
                              \<lparr>sp_customer = si_customer setupIntent,
                               sp_price = price_id,
                               default_payment_method = template (payment_method setupIntent),
                               discounts = coupons\<rparr>;
                            w3 = stripe_called (SubscriptionsCreate subscriptionParams) w2
                        in case subscriptions_create env subscriptionParams of
                             Inl message \<Rightarrow> (error_json message 500, w3)
                           | Inr sub \<Rightarrow>
                               (let w4 = store_subscription user_id sub price_id (promoCodeInfo request) w3;
                                    w5 = stripe_called (PricesRetrieve price_id) w4
                                in case prices_retrieve env price_id of
                                     Inl message \<Rightarrow> (error_json message 500, w5)
                                   | Inr price \<Rightarrow>
                                       (let w6 = stripe_called (ProductsRetrieve (price_product price)) w5
                                        in case products_retrieve env (price_product price) of
                                             Inl message \<Rightarrow> (error_json message 500, w6)
                                           | Inr product \<Rightarrow>
                                               (NextResponse_json
                                                  (JObj [(''success'', JBool True),
                                                         (''subscriptionId'', JStr (sub_id sub)),
                                                         (''status'', JStr (sub_status sub)),
                                                         (''promoCodeApplied'',
                                                          JBool (promoCodeInfo request \<noteq> None))])
                                                  200,
                                                grant_credits env user_id (plan_credits (name product)) w6)))))))"


section \<open>The setup-intent route: \<^verbatim>\<open>app/api/checkout-sessions/route.ts\<close>\<close>

text \<open>
  Lines 40 to 65: the customer of the user, found by e-mail or created. \<open>Inl\<close> is the
  \<^verbatim>\<open>catch\<close> of line 59.
\<close>

definition find_or_create_customer ::
  "environment \<Rightarrow> string \<Rightarrow> world \<Rightarrow> (response + string) \<times> world" where
  "find_or_create_customer env user_id w =
     (let w1 = stripe_called (CustomersList user_id) w in
      case customers_list env user_id of
        Inl message \<Rightarrow> (Inl (error_json ''Failed to create customer account'' 500), w1)
      | Inr (c # _) \<Rightarrow> (Inr c, w1)
      | Inr [] \<Rightarrow>
          (let w2 = stripe_called (CustomersCreate user_id) w1 in
           case customers_create env user_id of
             Inl message \<Rightarrow> (Inl (error_json ''Failed to create customer account'' 500), w2)
           | Inr c \<Rightarrow> (Inr c, w2)))"

text \<open>\<^verbatim>\<open>price.recurring?.interval || 'unknown'\<close>.\<close>

definition interval_or :: "string \<Rightarrow> price \<Rightarrow> string" where
  "interval_or dflt p = (if truthy (recurring_interval p) then template (recurring_interval p) else dflt)"

text \<open>\<^verbatim>\<open>price.unit_amount || 0\<close>.\<close>

definition unit_amount_or_0 :: "price \<Rightarrow> int" where
  "unit_amount_or_0 p = (case unit_amount p of None \<Rightarrow> 0 | Some a \<Rightarrow> a)"

text \<open>\<^verbatim>\<open>names.join(' and ')\<close>.\<close>

fun join_and :: "string list \<Rightarrow> string" where
  "join_and [] = []"
| "join_and [n] = n"
| "join_and (n # ns) = n @ '' and '' @ join_and ns"

text \<open>
  Lines 152 to 159: the names of the allowed products; a product that cannot be retrieved
  is skipped.
\<close>

fun allowed_product_names :: "environment \<Rightarrow> string list \<Rightarrow> world \<Rightarrow> string list \<times> world" where
  "allowed_product_names env [] w = ([], w)"
| "allowed_product_names env (allowedProductId # ids) w =
     (let w1 = stripe_called (ProductsRetrieve allowedProductId) w in
      case products_retrieve env allowedProductId of
        Inl err \<Rightarrow> allowed_product_names env ids w1
      | Inr allowedProduct \<Rightarrow>
          (case allowed_product_names env ids w1 of (names, w2) \<Rightarrow> (name allowedProduct # names, w2)))"

text \<open>
  Lines 137 to 173, the product restriction. The result is the rejection, or \<open>None\<close> when the
  validation goes on.
\<close>

definition check_product_restrictions ::
  "environment \<Rightarrow> price \<Rightarrow> applies_to \<Rightarrow> world \<Rightarrow> response option \<times> world" where
  "check_product_restrictions env p restrictions w =
     (case products restrictions of
        None \<Rightarrow> (None, w)
      | Some allowedProductIds \<Rightarrow>
          if length allowedProductIds > 0 then
            (if price_product p \<in> set allowedProductIds then (None, w)
             else
               (case allowed_product_names env allowedProductIds w of (allowedProductNames, w1) \<Rightarrow>
                  (Some (error_json
                           (if length allowedProductNames > 0
                            then ''This promo code is valid only for '' @ join_and allowedProductNames
                                 @ '' and does not apply to your selected ''
                                 @ interval_or ''unknown'' p @ '' plan.''
                            else ''This promo code is not valid for the selected plan.'')
                           400), w1)))
          else (None, w))"

text \<open>
  Lines 176 to 207, the price restriction. \<open>Inl\<close> is a throwing lookup of the price or of its
  product for the message.
\<close>

definition check_price_restrictions ::
  "environment \<Rightarrow> string \<Rightarrow> price \<Rightarrow> applies_to \<Rightarrow> world \<Rightarrow> (string + response option) \<times> world" where
  "check_price_restrictions env price_id p restrictions w =
     (case prices restrictions of
        None \<Rightarrow> (Inr None, w)
      | Some allowedPrices \<Rightarrow>
          if length allowedPrices > 0 then
            (if price_id \<in> set allowedPrices then (Inr None, w)
             else
               (let w1 = stripe_called (PricesRetrieve price_id) w in
                case prices_retrieve env price_id of
                  Inl message \<Rightarrow> (Inl message, w1)
                | Inr priceInfo \<Rightarrow>
                    (let w2 = stripe_called (ProductsRetrieve (price_product priceInfo)) w1 in
                     case products_retrieve env (price_product priceInfo) of
                       Inl message \<Rightarrow> (Inl message, w2)
                     | Inr productInfo \<Rightarrow>
                         (Inr (Some (error_json
                                 (''This promo code is valid only for '' @ name productInfo @ '' (''
                                  @ (if interval_or ''unknown'' priceInfo = ''month''
                                     then ''monthly'' else ''yearly'')
                                  @ '' billing) and does not apply to your selected ''
                                  @ interval_or ''unknown'' p @ '' plan.'')
                                 400)), w2))))
          else
            (Inr (Some (error_json ''This promo code is not valid for the selected billing cycle'' 400)),
             w))"

text \<open>
  Lines 210 to 217, the discount: the amount taken off, or else the percentage of the unit
  amount, \<^verbatim>\<open>Math.round((price.unit_amount || 0) * (coupon.percent_off / 100))\<close>, as the
  platform computes it in doubles.
\<close>

definition discount_amount :: "environment \<Rightarrow> coupon \<Rightarrow> price \<Rightarrow> int" where
  "discount_amount env c p =
     (case amount_off c of
        Some a \<Rightarrow>
          if a \<noteq> 0 then a
          else (case percent_off c of
                  Some pct \<Rightarrow> if pct \<noteq> 0 then Math_round_percent env (unit_amount_or_0 p) pct else 0
                | None \<Rightarrow> 0)
      | None \<Rightarrow>
          (case percent_off c of
             Some pct \<Rightarrow> if pct \<noteq> 0 then Math_round_percent env (unit_amount_or_0 p) pct else 0
           | None \<Rightarrow> 0))"

text \<open>
  Lines 130 to 226: the restrictions of the retrieved coupon and its discount. \<open>Inl\<close> is a
  throwing lookup, \<open>Inr (Inl r)\<close> the rejection \<open>r\<close>, \<open>Inr (Inr d)\<close> the discount of an
  accepted code.
\<close>

definition check_coupon ::
  "environment \<Rightarrow> string \<Rightarrow> price \<Rightarrow> coupon \<Rightarrow> world \<Rightarrow> (string + (response + int)) \<times> world" where
  "check_coupon env price_id p c w =
     (case
        (case applies_to c of
           None \<Rightarrow> (Inr None, w)
         | Some restrictions \<Rightarrow>
             (case check_product_restrictions env p restrictions w of
                (Some r, w1) \<Rightarrow> (Inr (Some r), w1)
              | (None, w1) \<Rightarrow> check_price_restrictions env price_id p restrictions w1))
      of
        (Inl message, w2) \<Rightarrow> (Inl message, w2)
      | (Inr (Some r), w2) \<Rightarrow> (Inr (Inl r), w2)
      | (Inr None, w2) \<Rightarrow>
          if discount_amount env c p = 0
          then (Inr (Inl (error_json
                   ''This promo code does not provide any discount for the selected plan'' 400)), w2)
          else (Inr (Inr (discount_amount env c p)), w2))"

text \<open>
  Lines 76 to 238: the validation of a supplied promotion code. \<open>Inl r\<close> is the response
  \<open>r\<close> that ends the request; \<open>Inr\<close> carries the validated code, the discount and the
  coupon.
\<close>

definition validate_promotion_code ::
  "environment \<Rightarrow> string \<Rightarrow> string \<Rightarrow> price \<Rightarrow> world \<Rightarrow> (response + string \<times> int \<times> coupon) \<times> world" where
  "validate_promotion_code env promotion_code price_id p w =
     (let w1 = stripe_called (PromotionCodesList promotion_code) w in
      case promotionCodes_list env promotion_code of
        Inl message \<Rightarrow>
          (Inl (error_json ''Failed to validate promotion code. Please try again.'' 500), w1)
      | Inr [] \<Rightarrow>
          (Inl (error_json (''Promo code \"'' @ promotion_code @ ''\" is invalid or inactive'') 400), w1)
      | Inr (promotionCodeObj # _) \<Rightarrow>
          (case
             (case expires_at promotionCodeObj of
                None \<Rightarrow> (False, w1)
              | Some e \<Rightarrow>
                  if e = 0 then (False, w1)
                  else (case Date_now_ms env w1 of (now, w2) \<Rightarrow> (e < int (now div 1000), w2)))
           of (expired, w2) \<Rightarrow>
             if expired
             then (Inl (error_json ''This promotion code has expired'' 400), w2)
             else
               (let w3 = stripe_called (CouponsRetrieve (pc_coupon promotionCodeObj)) w2 in
                case coupons_retrieve env (pc_coupon promotionCodeObj) of
                  Inl couponError \<Rightarrow>
                    (Inl (error_json ''Failed to retrieve promotion code details'' 400), w3)
                | Inr c \<Rightarrow>
                    (case check_coupon env price_id p c w3 of
                       (Inl message, w4) \<Rightarrow>
                         (Inl (error_json ''Failed to validate promotion code. Please try again.'' 500),
                          w4)
                     | (Inr (Inl r), w4) \<Rightarrow> (Inl r, w4)
                     | (Inr (Inr discountAmount), w4) \<Rightarrow>
                         (Inr (pc_code promotionCodeObj, discountAmount, c), w4)))))"

text \<open>Lines 240 to 281: the setup intent is created and the response is built.\<close>

definition applies_to_json :: "applies_to option \<Rightarrow> json" where
  "applies_to_json a =
     (case a of
        None \<Rightarrow> JObj [(''products'', JArr []), (''prices'', JArr [])]
      | Some r \<Rightarrow>
          JObj ((case products r of None \<Rightarrow> [] | Some ps \<Rightarrow> [(''products'', JArr (map JStr ps))])
                @ (case prices r of None \<Rightarrow> [] | Some ps \<Rightarrow> [(''prices'', JArr (map JStr ps))])))"

definition truthy_rat :: "rat option \<Rightarrow> bool" where
  "truthy_rat v = (case v of None \<Rightarrow> False | Some x \<Rightarrow> x \<noteq> 0)"

definition create_setup_intent ::
  "environment \<Rightarrow> string \<Rightarrow> string \<Rightarrow> string \<Rightarrow> price \<Rightarrow> (string \<times> int \<times> coupon) option \<Rightarrow> world
     \<Rightarrow> response \<times> world" where
  "create_setup_intent env customer_id price_id user_id p validated w =
     (let validatedPromotionCode = (case validated of
                                      None \<Rightarrow> None
                                    | Some (c, d, cp) \<Rightarrow> if c = [] then None else Some c);
          discountAmount = (case validated of None \<Rightarrow> 0 | Some (c, d, cp) \<Rightarrow> d);
          setupIntentParams =
            \<lparr>sip_customer = customer_id,
             sip_metadata = [(''priceId'', price_id), (''userId'', user_id)]
               @ (case validatedPromotionCode of None \<Rightarrow> [] | Some c \<Rightarrow> [(''promotionCode'', c)])\<rparr>;
          w1 = stripe_called (SetupIntentsCreate setupIntentParams) w
      in case setupIntents_create env setupIntentParams of
           Inl message \<Rightarrow> (error_json ''Failed to create setup intent'' 500, w1)
         | Inr setupIntent \<Rightarrow>
             (let w2 = stripe_called (ProductsRetrieve (price_product p)) w1 in
              case products_retrieve env (price_product p) of
                Inl message \<Rightarrow> (error_json ''Failed to create setup intent'' 500, w2)
              | Inr productObj \<Rightarrow>
                  (NextResponse_json
                     (JObj ([(''clientSecret'',
                              (case client_secret setupIntent of None \<Rightarrow> JNull | Some s \<Rightarrow> JStr s)),
                             (''priceId'', JStr price_id),
                             (''productId'', JStr (price_product p)),
                             (''originalAmount'', JNum (of_int (unit_amount_or_0 p))),
                             (''discountAmount'', JNum (of_int discountAmount)),
                             (''finalAmount'', JNum (of_int (unit_amount_or_0 p - discountAmount)))]
                            @ (case validatedPromotionCode of
                                 None \<Rightarrow> [] | Some c \<Rightarrow> [(''promotionCode'', JStr c)])
                            @ [(''billingCycle'', JStr (interval_or ''month'' p))]
                            @ (case (validatedPromotionCode, validated) of
                                 (Some c, Some (_, _, cp)) \<Rightarrow>
                                   [(''promoCodeInfo'',
                                     JObj [(''productName'',
                                            JStr (if name productObj = [] then ''Unknown Product'' else name productObj)),
                                           (''billingCycle'', JStr (interval_or ''month'' p)),
                                           (''discountType'',
                                            JStr (if truthy_rat (percent_off cp)
                                                  then ''percentage'' else ''amount'')),
                                           (''discountValue'',
                                            JNum (case percent_off cp of
                                                    Some pct \<Rightarrow>
                                                      if pct \<noteq> 0 then divide_by_100 env pct
                                                      else (case amount_off cp of
                                                              Some a \<Rightarrow>
                                                                if a \<noteq> 0
                                                                then divide_by_100 env (of_int a) else 0
                                                            | None \<Rightarrow> 0)
                                                  | None \<Rightarrow>
                                                      (case amount_off cp of
                                                         Some a \<Rightarrow>
                                                           if a \<noteq> 0
                                                           then divide_by_100 env (of_int a) else 0
                                                       | None \<Rightarrow> 0))),
                                           (''appliesTo'', applies_to_json (applies_to cp)),
                                           (''promotionCode'', JStr c)])]
                               | _ \<Rightarrow> [])))
                     200, w2)))"

text \<open>
  \<^verbatim>\<open>POST\<close>, lines 14 to 290. A throwing \<^verbatim>\<open>stripe.prices.retrieve\<close> of line 68 reaches the
  outer \<^verbatim>\<open>catch\<close>.
\<close>

definition POST_checkout_sessions ::
  "environment \<Rightarrow> json_request \<Rightarrow> world \<Rightarrow> response \<times> world" where
  "POST_checkout_sessions env request w =
     (if \<not> truthy (STRIPE_SECRET_KEY env) then (error_json ''Stripe is not configured'' 500, w)
      else if \<not> truthy (priceId request) then (error_json ''Price ID is required'' 400, w)
      else if \<not> truthy (userId request) then (error_json ''User ID is required'' 400, w)
      else
        (let price_id = template (priceId request);
             user_id = template (userId request)
         in case find_or_create_customer env user_id w of
              (Inl r, w1) \<Rightarrow> (r, w1)
            | (Inr customer_id, w1) \<Rightarrow>
                (let w2 = stripe_called (PricesRetrieve price_id) w1 in
                 case prices_retrieve env price_id of
                   Inl message \<Rightarrow> (error_json ''Failed to create setup intent'' 500, w2)
                 | Inr p \<Rightarrow>
                     if truthy (promotionCode request) then
                       (case validate_promotion_code env (template (promotionCode request)) price_id p w2 of
                          (Inl r, w3) \<Rightarrow> (r, w3)
                        | (Inr validated, w3) \<Rightarrow>
                            create_setup_intent env customer_id price_id user_id p (Some validated) w3)
                     else create_setup_intent env customer_id price_id user_id p None w2)))"


section \<open>The order of the promotion-code checks, as the specification words it\<close>

text \<open>
  The specification orders the validation: existence, expiration, product restriction,
  price restriction, nonzero discount; the first failing check rejects. The definitions
  below say this directly, on the data the route obtains from the billing system: the list
  found for the code, the clock reading, the coupon, the price and the requested price id.
  They are what the route is compared with.
\<close>

datatype promo_check = Existence | Expiration | ProductRestriction | PriceRestriction | NonzeroDiscount

definition expired :: "promotion_code \<Rightarrow> nat \<Rightarrow> bool" where
  "expired pc now_ms = (case expires_at pc of None \<Rightarrow> False | Some e \<Rightarrow> e \<noteq> 0 \<and> e < int (now_ms div 1000))"

definition product_excluded :: "coupon \<Rightarrow> price \<Rightarrow> bool" where
  "product_excluded c p =
     (case applies_to c of
        None \<Rightarrow> False
      | Some a \<Rightarrow> (case products a of None \<Rightarrow> False | Some ps \<Rightarrow> ps \<noteq> [] \<and> price_product p \<notin> set ps))"

definition price_excluded :: "coupon \<Rightarrow> string \<Rightarrow> bool" where
  "price_excluded c price_id =
     (case applies_to c of
        None \<Rightarrow> False
      | Some a \<Rightarrow> (case prices a of None \<Rightarrow> False | Some ps \<Rightarrow> price_id \<notin> set ps))"

definition first_failing_check ::
  "environment \<Rightarrow> promotion_code list \<Rightarrow> nat \<Rightarrow> coupon \<Rightarrow> price \<Rightarrow> string \<Rightarrow> promo_check option" where
  "first_failing_check env found now_ms c p price_id =
     (case found of
        [] \<Rightarrow> Some Existence
      | pc # _ \<Rightarrow>
          if expired pc now_ms then Some Expiration
          else if product_excluded c p then Some ProductRestriction
          else if price_excluded c price_id then Some PriceRestriction
          else if discount_amount env c p = 0 then Some NonzeroDiscount
          else None)"

text \<open>The names of those allowed products that the billing system can retrieve.\<close>

fun retrievable_names :: "environment \<Rightarrow> string list \<Rightarrow> string list" where
  "retrievable_names env [] = []"
| "retrievable_names env (i # ids) =
     (case products_retrieve env i of
        Inl _ \<Rightarrow> retrievable_names env ids
      | Inr pr \<Rightarrow> name pr # retrievable_names env ids)"

text \<open>The message that describes each rejection.\<close>

definition rejection_message ::
  "environment \<Rightarrow> string \<Rightarrow> coupon \<Rightarrow> price \<Rightarrow> promo_check \<Rightarrow> string" where
  "rejection_message env promotion_code c p chk =
     (case chk of
        Existence \<Rightarrow> ''Promo code \"'' @ promotion_code @ ''\" is invalid or inactive''
      | Expiration \<Rightarrow> ''This promotion code has expired''
      | ProductRestriction \<Rightarrow>
          (case applies_to c of
             None \<Rightarrow> []
           | Some a \<Rightarrow>
               (case products a of
                  None \<Rightarrow> []
                | Some ps \<Rightarrow>
                    if retrievable_names env ps \<noteq> []
                    then ''This promo code is valid only for '' @ join_and (retrievable_names env ps)
                         @ '' and does not apply to your selected '' @ interval_or ''unknown'' p
                         @ '' plan.''
                    else ''This promo code is not valid for the selected plan.''))
      | PriceRestriction \<Rightarrow>
          (case applies_to c of
             None \<Rightarrow> []
           | Some a \<Rightarrow>
               (case prices a of
                  None \<Rightarrow> []
                | Some ps \<Rightarrow>
                    if ps = [] then ''This promo code is not valid for the selected billing cycle''
                    else (case products_retrieve env (price_product p) of
                            Inl _ \<Rightarrow> []
                          | Inr pr \<Rightarrow>
                              ''This promo code is valid only for '' @ name pr @ '' (''
                              @ (if interval_or ''unknown'' p = ''month'' then ''monthly'' else ''yearly'')
                              @ '' billing) and does not apply to your selected ''
                              @ interval_or ''unknown'' p @ '' plan.'')))
      | NonzeroDiscount \<Rightarrow> ''This promo code does not provide any discount for the selected plan'')"

text \<open>Whether a list of calls to the billing system creates a setup intent, or retrieves a coupon.\<close>

definition creates_setup_intent :: "stripe_call list \<Rightarrow> bool" where
  "creates_setup_intent calls = list_ex (\<lambda>c. case c of SetupIntentsCreate _ \<Rightarrow> True | _ \<Rightarrow> False) calls"

definition retrieves_coupon :: "stripe_call list \<Rightarrow> bool" where
  "retrieves_coupon calls = list_ex (\<lambda>c. case c of CouponsRetrieve _ \<Rightarrow> True | _ \<Rightarrow> False) calls"

text \<open>
  A request to the setup-intent route reaches the validation of its promotion code when
  the route is configured, the request names a price, a user and a promotion code, the
  customer of the user is found or created, and the price is retrieved as \<open>p\<close>.
\<close>

definition reaches_validation :: "environment \<Rightarrow> json_request \<Rightarrow> price \<Rightarrow> bool" where
  "reaches_validation env request p =
     (truthy (STRIPE_SECRET_KEY env) \<and> truthy (priceId request) \<and> truthy (userId request) \<and>
      truthy (promotionCode request) \<and>
      (case customers_list env (template (userId request)) of
         Inl _ \<Rightarrow> False
       | Inr [] \<Rightarrow> (case customers_create env (template (userId request)) of
                      Inl _ \<Rightarrow> False | Inr _ \<Rightarrow> True)
       | Inr (_ # _) \<Rightarrow> True) \<and>
      prices_retrieve env (template (priceId request)) = Inr p)"


section \<open>Notions used to state the properties of the webhook route, and concrete inputs\<close>

text \<open>
  The route is configured when both environment variables are set. A request is verified
  when it carries a signature, its body can be read and \<^verbatim>\<open>constructEvent\<close> accepts the
  three of body, signature and secret; \<open>verify\<close> then gives the event, and \<open>None\<close> when the
  signature is missing or the verification cannot succeed.
\<close>

definition configured :: "environment \<Rightarrow> bool" where
  "configured env = (truthy (STRIPE_SECRET_KEY env) \<and> truthy (STRIPE_WEBHOOK_SECRET env))"

definition verify :: "environment \<Rightarrow> webhook_request \<Rightarrow> event option" where
  "verify env request =
     (case stripe_signature request of
        None \<Rightarrow> None
      | Some signature \<Rightarrow>
          if signature = [] then None
          else (case raw_body request of
                  Inl _ \<Rightarrow> None
                | Inr rawBody \<Rightarrow>
                    (case constructEvent env rawBody signature (webhookSecret env) of
                       Inl _ \<Rightarrow> None
                     | Inr event \<Rightarrow> Some event)))"

text \<open>
  The object \<^verbatim>\<open>updateData\<close> that lines 235 to 254 build, as a function of the status the event
  reports, of whether the trial-to-active transition was detected, and of the clock reading
  \<open>t\<close> at which the handler starts to read the time.
\<close>

definition updateData_fields :: "environment \<Rightarrow> string \<Rightarrow> bool \<Rightarrow> nat \<Rightarrow> hash" where
  "updateData_fields env st transition t =
     [(''status'', st), (''lastUpdated'', now_iso env t), (''stripeSubscriptionStatus'', st)]
      @ (if transition
         then [(''trialEndedAt'', now_iso env (Suc t)),
               (''trialToActiveDate'', now_iso env (Suc (Suc t)))] else [])
      @ (if st = ''canceled'' then [(''canceledAt'', now_iso env (Suc t))] else [])
      @ (if st = ''unpaid'' \<or> st = ''past_due'' then [(''unpaidAt'', now_iso env (Suc t))] else [])"

subsection \<open>Concrete inputs\<close>

text \<open>
  Configured routes whose verification accepts the signature \<^verbatim>\<open>t=1,v1=ok\<close> and yields the
  given event; a billing system that knows two setup intents (one succeeded, one not), a
  Standard price and an Enterprise price, and three promotion codes: \<^verbatim>\<open>SAVE5\<close> without
  restrictions, \<^verbatim>\<open>NOPRICES\<close> with an empty list of prices and \<^verbatim>\<open>NOPRODUCTS\<close> with an empty
  list of products; a clock that advances between its first and its later readings; and a
  store in which customer \<^verbatim>\<open>cus_1\<close> is indexed to \<^verbatim>\<open>user_42\<close>, who holds 500 credits and the
  given subscription record. The three coupons take an amount off, so that of the
  arithmetic of doubles the examples ask one value only, \<^verbatim>\<open>500 / 100\<close>, which is 5; beside
  it the environment gives 20 percent of 1500, which is 300 in doubles as in the rationals,
  and answers 0 elsewhere.
\<close>

definition ex_env :: "event \<Rightarrow> environment" where
  "ex_env ev =
     \<lparr>STRIPE_SECRET_KEY = Some ''sk_test_1'',
      STRIPE_WEBHOOK_SECRET = Some ''whsec_1'',
      constructEvent = (\<lambda>rawBody signature secret.
         if signature = ''t=1,v1=ok'' \<and> secret = ''whsec_1'' then Inr ev
         else Inl ''No signatures found matching the expected signature for payload''),
      subscriptions_retrieve = (\<lambda>id. Inl ''No such subscription''),
      subscriptions_cancel = (\<lambda>id. Inl ''No such subscription''),
      subscriptions_create = (\<lambda>params.
         Inr \<lparr>sub_id = ''sub_1'', sub_status = ''active'',
              current_period_start = Some 1748772000, current_period_end = Some 1751364000,
              created = 1748772000\<rparr>),
      setupIntents_retrieve = (\<lambda>id.
         if id = ''seti_1''
         then Inr \<lparr>si_status = ''succeeded'', payment_method = Some ''pm_1'', si_customer = Some ''cus_1''\<rparr>
         else if id = ''seti_2''
         then Inr \<lparr>si_status = ''requires_payment_method'', payment_method = None,
                   si_customer = Some ''cus_1''\<rparr>
         else Inl ''No such setupintent''),
      setupIntents_create = (\<lambda>params. Inr \<lparr>csi_id = ''seti_9'', client_secret = Some ''seti_9_secret''\<rparr>),
      customers_list = (\<lambda>email. Inr [''cus_1'']),
      customers_create = (\<lambda>email. Inr ''cus_2''),
      prices_retrieve = (\<lambda>id.
         if id = ''price_std''
         then Inr \<lparr>price_product = ''prod_std'', unit_amount = Some 1500, recurring_interval = Some ''month''\<rparr>
         else if id = ''price_ent''
         then Inr \<lparr>price_product = ''prod_ent'', unit_amount = Some 9900, recurring_interval = Some ''month''\<rparr>
         else Inl ''No such price''),
      products_retrieve = (\<lambda>id.
         if id = ''prod_std'' then Inr \<lparr>name = ''Standard Plan''\<rparr>
         else if id = ''prod_ent'' then Inr \<lparr>name = ''Enterprise Plan''\<rparr>
         else Inl ''No such product''),
      promotionCodes_list = (\<lambda>code.
         if code = ''SAVE5'' then Inr [\<lparr>pc_id = ''promo_1'', pc_code = ''SAVE5'', expires_at = None, pc_coupon = ''co_5''\<rparr>]
         else if code = ''NOPRICES'' then Inr [\<lparr>pc_id = ''promo_2'', pc_code = ''NOPRICES'', expires_at = None, pc_coupon = ''co_prices''\<rparr>]
         else if code = ''NOPRODUCTS'' then Inr [\<lparr>pc_id = ''promo_3'', pc_code = ''NOPRODUCTS'', expires_at = None, pc_coupon = ''co_products''\<rparr>]
         else Inr []),
      coupons_retrieve = (\<lambda>id.
         if id = ''co_5''
         then Inr \<lparr>cp_id = ''co_5'', amount_off = Some 500, percent_off = None, applies_to = None\<rparr>
         else if id = ''co_prices''
         then Inr \<lparr>cp_id = ''co_prices'', amount_off = Some 500, percent_off = None,
                   applies_to = Some \<lparr>products = None, prices = Some []\<rparr>\<rparr>
         else if id = ''co_products''
         then Inr \<lparr>cp_id = ''co_products'', amount_off = Some 500, percent_off = None,
                   applies_to = Some \<lparr>products = Some [], prices = None\<rparr>\<rparr>
         else Inl ''No such coupon''),
      now_iso = (\<lambda>k. if k = 0 then ''2025-06-01T10:00:00.000Z'' else ''2025-06-01T10:00:05.000Z''),
      Date_now = (\<lambda>k. 1748772000000 + 5000 * k),
      Math_round_percent = (\<lambda>a pct. if a = 1500 \<and> pct = 20 then 300 else 0),
      divide_by_100 = (\<lambda>x. if x = 500 then 5 else 0)\<rparr>"

definition ex_request :: "string \<Rightarrow> webhook_request" where
  "ex_request signature = \<lparr>stripe_signature = Some signature, raw_body = Inr ''{}''\<rparr>"

definition ex_event :: "string \<Rightarrow> string option \<Rightarrow> string \<Rightarrow> (string \<times> string) list \<Rightarrow> event" where
  "ex_event type cust st meta =
     \<lparr>ev_id = ''evt_1'', ev_type = type,
      data_object = \<lparr>obj_id = ''obj_1'', customer = cust, obj_status = st,
                      subscription = None, billing_reason = None, metadata = meta\<rparr>\<rparr>"

definition ex_credits :: hash where
  "ex_credits = [(''total'', ''500''), (''used'', ''3''), (''resetDate'', ''2025-07-01''),
                 (''lastUpdate'', ''2025-05-20T14:30:00.000Z'')]"

definition ex_world :: "hash option \<Rightarrow> world" where
  "ex_world sub =
     \<lparr>strings = [''stripe:customer:cus_1'' \<mapsto> ''user_42''],
      hashes = (\<lambda>k. if k = ''user:user_42:credits'' then Some ex_credits
                     else if k = ''user:user_42:subscription'' then sub else None),
      redis_calls = [], stripe_calls = [], ticks = 0\<rparr>"

definition ex_json_request ::
  "string \<Rightarrow> string \<Rightarrow> string option \<Rightarrow> json_request" where
  "ex_json_request setup_intent_id price_id promotion_code =
     \<lparr>token_sub = Some ''user_42'', setupIntentId = Some setup_intent_id, priceId = Some price_id,
      promoCodeInfo = None, promotionCode = promotion_code, userId = Some ''ann@example.com''\<rparr>"

definition ex_no_event :: event where
  "ex_no_event = ex_event ''ping'' None [] []"


section \<open>Facts about the store\<close>

lemmas ex_defs = ex_env_def ex_request_def ex_event_def ex_credits_def ex_world_def
  configured_def verify_def truthy_def template_def webhookSecret_def POST_webhooks_def
  dispatch_def ok_def error_json_def NextResponse_json_def received_def
  USER_SUBSCRIPTION_def USER_CREDITS_def redis_get_def redis_hgetall_def redis_hset_def
  called_def hfield_def hset_fields_def new_Date_toISOString_def setZeroCredits_def Let_def

lemma map_of_hset_fields: "map_of (hset_fields h fs) = map_of h ++ map_of (rev fs)"
  unfolding hset_fields_def
  by (induction fs arbitrary: h) (auto simp: update_conv' map_add_def fun_eq_iff split: option.splits)

lemma hset_fields_triv:
  "(\<And>f v. (f, v) \<in> set fs \<Longrightarrow> map_of h f = Some v) \<Longrightarrow> hset_fields h fs = h"
  unfolding hset_fields_def
  by (induction fs arbitrary: h) (auto simp: update_triv)

lemma keys_differ: "USER_SUBSCRIPTION u \<noteq> USER_CREDITS u'"
  by (simp add: USER_SUBSCRIPTION_def USER_CREDITS_def)

lemma store_called [simp]:
  "strings (called c w) = strings w" "hashes (called c w) = hashes w"
  by (simp_all add: called_def)

lemma store_stripe_called [simp]:
  "strings (stripe_called c w) = strings w" "hashes (stripe_called c w) = hashes w"
  by (simp_all add: stripe_called_def)

lemma strings_redis_hset [simp]: "strings (redis_hset k fs w) = strings w"
  by (simp add: redis_hset_def called_def)

lemma hfield_redis_hset:
  "hfield (redis_hset k fs w) k' f =
     (if k' = k then (case map_of (rev fs) f of None \<Rightarrow> hfield w k f | Some v \<Rightarrow> Some v)
      else hfield w k' f)"
  by (auto simp: hfield_def redis_hset_def called_def map_of_hset_fields map_add_def
      split: option.splits)

lemma hfield_redis_hset_mem:
  assumes "distinct (map fst fs)" and "(f, v) \<in> set fs"
  shows "hfield (redis_hset k fs w) k f = Some v"
proof -
  have "map_of (rev fs) f = Some v"
    using assms by (intro map_of_is_SomeI) (simp_all add: rev_map[symmetric])
  then show ?thesis by (simp add: hfield_redis_hset)
qed

lemma hashes_redis_hset_triv:
  assumes "fs \<noteq> []" and "\<And>f v. (f, v) \<in> set fs \<Longrightarrow> hfield w k f = Some v"
  shows "hashes (redis_hset k fs w) = hashes w"
proof -
  obtain f v where fv: "(f, v) \<in> set fs" using assms(1) by (cases fs) auto
  from assms(2)[OF fv] obtain h where h: "hashes w k = Some h"
    by (auto simp: hfield_def split: option.splits)
  have "hset_fields h fs = h"
    using assms(2) h by (intro hset_fields_triv) (simp add: hfield_def)
  then show ?thesis
    using h by (auto simp: redis_hset_def called_def)
qed

section \<open>Facts about the webhook route\<close>

lemma POST_verified:
  "configured env \<Longrightarrow> verify env request = Some ev \<Longrightarrow>
   POST_webhooks env request w =
     (case dispatch env ev w of
        (Inr r, w') \<Rightarrow> (r, w')
      | (Inl message, w') \<Rightarrow>
          (error_json (if message = [] then ''Webhook handler failed'' else message) 500, w'))"
  by (auto simp: configured_def verify_def POST_webhooks_def truthy_def webhookSecret_def
      split: option.splits sum.splits if_splits)

lemma fst_POST_verified:
  assumes "configured env" and "verify env request = Some ev"
  shows "fst (POST_webhooks env request w) =
     (case fst (dispatch env ev w) of
        Inr r \<Rightarrow> r
      | Inl message \<Rightarrow> error_json (if message = [] then ''Webhook handler failed'' else message) 500)"
  by (simp add: POST_verified[OF assms] split: prod.split sum.split)

lemma snd_POST_verified:
  assumes "configured env" and "verify env request = Some ev"
  shows "snd (POST_webhooks env request w) = snd (dispatch env ev w)"
  by (simp add: POST_verified[OF assms] split: prod.split sum.split)

subsection \<open>The response of each handler\<close>

lemma fst_on_subscription_updated:
  "fst (on_subscription_updated env s w) =
      (if truthy (customer s) then received else error_json ''No customer ID found'' 400)"
  by (simp add: on_subscription_updated_def truthy_def redis_get_def redis_hgetall_def
        new_Date_toISOString_def Let_def split: option.split prod.split)

lemma fst_on_subscription_deleted:
  "fst (on_subscription_deleted env s w) =
      (if truthy (customer s) then received else error_json ''No customer ID found'' 400)"
  by (simp add: on_subscription_deleted_def truthy_def redis_get_def redis_hgetall_def
        new_Date_toISOString_def Let_def split: option.split prod.split)

lemma fst_on_trial_will_end:
  "fst (on_trial_will_end env s w) =
      (if truthy (customer s) then received else error_json ''No customer ID found'' 400)"
  by (simp add: on_trial_will_end_def truthy_def redis_get_def split: option.split prod.split)

lemma fst_on_invoice_payment_succeeded:
  "fst (on_invoice_payment_succeeded env s w) =
     (if truthy (subscription s) then
        (case subscriptions_retrieve env (template (subscription s)) of
           Inl message \<Rightarrow> Inl message | Inr _ \<Rightarrow> Inr received)
      else Inr received)"
  by (simp add: on_invoice_payment_succeeded_def redis_get_def redis_hgetall_def
        new_Date_toISOString_def Let_def split: sum.split prod.split)

lemma fst_on_invoice_payment_failed:
  "fst (on_invoice_payment_failed env s w) =
     (if truthy (subscription s) \<and> billing_reason s = Some ''subscription_cycle'' then
        (case subscriptions_retrieve env (template (subscription s)) of
           Inl message \<Rightarrow> Inl message | Inr _ \<Rightarrow> Inr received)
      else Inr received)"
  by (simp add: on_invoice_payment_failed_def redis_get_def redis_hgetall_def
        new_Date_toISOString_def Let_def split: sum.split prod.split)

lemma fst_on_payment_intent_payment_failed:
  "fst (on_payment_intent_payment_failed env s w) = received"
  by (simp add: on_payment_intent_payment_failed_def new_Date_toISOString_def Let_def split: prod.split)

lemma fst_on_payment_intent_canceled:
  "fst (on_payment_intent_canceled env s w) = received"
  by (simp add: on_payment_intent_canceled_def new_Date_toISOString_def Let_def split: prod.split)

lemma fst_on_setup_intent_setup_failed:
  "fst (on_setup_intent_setup_failed env s w) = received"
  by (simp add: on_setup_intent_setup_failed_def redis_get_def new_Date_toISOString_def Let_def
        split: prod.split sum.split)

lemma fst_dispatch:
  "fst (dispatch env ev w) =
     (if ev_type ev \<in> {''customer.subscription.updated'', ''customer.subscription.deleted'',
                        ''customer.subscription.trial_will_end''}
      then Inr (if truthy (customer (data_object ev)) then received
                else error_json ''No customer ID found'' 400)
      else if ev_type ev = ''invoice.payment_succeeded''
      then fst (on_invoice_payment_succeeded env (data_object ev) w)
      else if ev_type ev = ''invoice.payment_failed''
      then fst (on_invoice_payment_failed env (data_object ev) w)
      else Inr received)"
  by (simp add: dispatch_def ok_def fst_on_subscription_updated fst_on_subscription_deleted
      fst_on_trial_will_end fst_on_payment_intent_payment_failed fst_on_payment_intent_canceled
      fst_on_setup_intent_setup_failed)

lemma snd_dispatch:
  "snd (dispatch env ev w) =
     (if ev_type ev = ''customer.subscription.updated''
        then snd (on_subscription_updated env (data_object ev) w)
      else if ev_type ev = ''customer.subscription.deleted''
        then snd (on_subscription_deleted env (data_object ev) w)
      else if ev_type ev = ''customer.subscription.trial_will_end''
        then snd (on_trial_will_end env (data_object ev) w)
      else if ev_type ev = ''invoice.payment_succeeded''
        then snd (on_invoice_payment_succeeded env (data_object ev) w)
      else if ev_type ev = ''invoice.payment_failed''
        then snd (on_invoice_payment_failed env (data_object ev) w)
      else if ev_type ev = ''payment_intent.payment_failed''
        then snd (on_payment_intent_payment_failed env (data_object ev) w)
      else if ev_type ev = ''payment_intent.canceled''
        then snd (on_payment_intent_canceled env (data_object ev) w)
      else if ev_type ev = ''setup_intent.setup_failed''
        then snd (on_setup_intent_setup_failed env (data_object ev) w)
      else w)"
  by (simp add: dispatch_def ok_def)

subsection \<open>A customer without an entry in the index\<close>

lemma unmapped_subscription_handlers:
  assumes "customer s = Some cid" and "strings w (''stripe:customer:'' @ cid) = None"
  shows "strings (snd (on_subscription_updated env s w)) = strings w"
    and "hashes (snd (on_subscription_updated env s w)) = hashes w"
    and "strings (snd (on_subscription_deleted env s w)) = strings w"
    and "hashes (snd (on_subscription_deleted env s w)) = hashes w"
    and "strings (snd (on_trial_will_end env s w)) = strings w"
    and "hashes (snd (on_trial_will_end env s w)) = hashes w"
  using assms
  by (simp_all add: on_subscription_updated_def on_subscription_deleted_def on_trial_will_end_def
      redis_get_def)

lemma unmapped_invoice_handlers:
  assumes "subscriptions_retrieve env (template (subscription s)) = Inr sb"
    and "customer sb = Some cid"
    and "strings w (''stripe:customer:'' @ cid) = None"
  shows "strings (snd (on_invoice_payment_succeeded env s w)) = strings w"
    and "hashes (snd (on_invoice_payment_succeeded env s w)) = hashes w"
    and "strings (snd (on_invoice_payment_failed env s w)) = strings w"
    and "hashes (snd (on_invoice_payment_failed env s w)) = hashes w"
  using assms
  by (simp_all add: on_invoice_payment_succeeded_def on_invoice_payment_failed_def
      redis_get_def template_def truthy_def Let_def)

lemma unmapped_setup_handler:
  assumes "subscriptions_retrieve env (template (map_of (metadata s) ''subscription_id'')) = Inr sb"
    and "customer sb = Some cid"
    and "strings w (''stripe:customer:'' @ cid) = None"
  shows "strings (snd (on_setup_intent_setup_failed env s w)) = strings w"
    and "hashes (snd (on_setup_intent_setup_failed env s w)) = hashes w"
  using assms
  by (simp_all add: on_setup_intent_setup_failed_def redis_get_def template_def truthy_def Let_def)

subsection \<open>The deleted subscription\<close>

lemma deleted_effect:
  assumes "customer subscr = Some cid" "cid \<noteq> []"
      and "strings w (''stripe:customer:'' @ cid) = Some uid" "uid \<noteq> []"
      and "hashes w (USER_SUBSCRIPTION uid) = Some h" "h \<noteq> []"
      and "on_subscription_deleted env subscr w = (r, w')"
  shows "r = received"
    and "hfield w' (USER_CREDITS uid) ''total'' = Some ''0''"
    and "hfield w' (USER_CREDITS uid) ''used'' = Some ''0''"
    and "hfield w' (USER_CREDITS uid) ''resetDate'' = Some ''''"
    and "hfield w' (USER_SUBSCRIPTION uid) ''planType'' = Some ''NONE''"
    and "hfield w' (USER_SUBSCRIPTION uid) ''status'' = Some ''canceled''"
    and "hfield w' (USER_SUBSCRIPTION uid) ''amount'' = Some ''0''"
    and "hfield w' (USER_SUBSCRIPTION uid) ''stripeCustomerId'' = Some ''''"
    and "hfield w' (USER_SUBSCRIPTION uid) ''stripeSubscriptionId'' = Some ''''"
  using assms
  by (auto simp: on_subscription_deleted_def redis_get_def redis_hgetall_def called_def
      new_Date_toISOString_def Let_def hfield_redis_hset keys_differ keys_differ[symmetric])

subsection \<open>The updated subscription, applied twice\<close>

lemma updated_resolved:
  assumes "customer subscr = Some cid" "cid \<noteq> []"
      and "strings w (''stripe:customer:'' @ cid) = Some uid" "uid \<noteq> []"
  shows "\<exists>n.
    on_subscription_updated env subscr w =
    (received, redis_hset (USER_SUBSCRIPTION uid)
       (updateData_fields env (obj_status subscr)
          (hfield w (USER_SUBSCRIPTION uid) ''status'' = Some ''trialing'' \<and> obj_status subscr = ''active'')
          (ticks w))
       (w\<lparr>redis_calls := redis_calls w @ [Get (''stripe:customer:'' @ cid), HGetAll (USER_SUBSCRIPTION uid)],
          ticks := n\<rparr>))"
proof -
  have cur: "(case (case hashes w (USER_SUBSCRIPTION uid) of None \<Rightarrow> None
                    | Some h \<Rightarrow> if h = [] then None else Some h) of
                None \<Rightarrow> None | Some h \<Rightarrow> map_of h ''status'')
             = hfield w (USER_SUBSCRIPTION uid) ''status''"
    by (simp add: hfield_def split: option.splits)
  show ?thesis
    using assms
    by (simp add: on_subscription_updated_def redis_get_def redis_hgetall_def called_def
        new_Date_toISOString_def Let_def cur updateData_fields_def)
       auto
qed

lemma updated_unresolved:
  assumes "\<not> (\<exists>cid uid. customer subscr = Some cid \<and> cid \<noteq> [] \<and>
               strings w (''stripe:customer:'' @ cid) = Some uid \<and> uid \<noteq> [])"
  shows "strings (snd (on_subscription_updated env subscr w)) = strings w \<and>
         hashes (snd (on_subscription_updated env subscr w)) = hashes w"
  using assms
  by (auto simp: on_subscription_updated_def redis_get_def called_def split: option.splits)

lemma distinct_updateData_fields: "distinct (map fst (updateData_fields env st tr t))"
  by (cases tr; cases "st = ''canceled''";
      cases "st = ''unpaid'' \<or> st = ''past_due''")
     (simp_all add: updateData_fields_def)

lemma status_updateData_fields: "(''status'', st) \<in> set (updateData_fields env st tr t)"
  by (simp add: updateData_fields_def)

lemma updateData_fields_nonempty: "updateData_fields env st tr t \<noteq> []"
  by (simp add: updateData_fields_def)

lemma updateData_fields_cases:
  assumes "(f, v) \<in> set (updateData_fields env st False t)"
  shows "f \<in> {''lastUpdated'', ''canceledAt'', ''unpaidAt''} \<or>
         (f \<in> {''status'', ''stripeSubscriptionStatus''} \<and> v = st)"
  using assms by (auto simp: updateData_fields_def split: if_splits)

lemma updateData_fields_status:
  "f \<in> {''status'', ''stripeSubscriptionStatus''} \<Longrightarrow> (f, st) \<in> set (updateData_fields env st tr t)"
  by (auto simp: updateData_fields_def)

lemma updateData_fields_constant_clock:
  assumes "\<forall>i j. now_iso env i = now_iso env j"
  shows "set (updateData_fields env st False t') \<subseteq> set (updateData_fields env st tr t)"
proof -
  obtain c where "now_iso env i = c" for i using assms by blast
  then show ?thesis
    by (auto simp: updateData_fields_def split: if_splits)
qed

lemma updated_twice:
  fixes env subscr w
  defines "w1 \<equiv> snd (on_subscription_updated env subscr w)"
  defines "w2 \<equiv> snd (on_subscription_updated env subscr w1)"
  shows "strings w2 = strings w1 \<and>
         (f \<notin> {''lastUpdated'', ''canceledAt'', ''unpaidAt''} \<longrightarrow> hfield w2 k f = hfield w1 k f) \<and>
         ((\<forall>i j. now_iso env i = now_iso env j) \<longrightarrow> hashes w2 = hashes w1)"
proof (cases "\<exists>cid uid. customer subscr = Some cid \<and> cid \<noteq> [] \<and>
               strings w (''stripe:customer:'' @ cid) = Some uid \<and> uid \<noteq> []")
  case False
  have s1: "strings w1 = strings w" "hashes w1 = hashes w"
    using updated_unresolved[OF False, of env] by (simp_all add: w1_def)
  then have "\<not> (\<exists>cid uid. customer subscr = Some cid \<and> cid \<noteq> [] \<and>
               strings w1 (''stripe:customer:'' @ cid) = Some uid \<and> uid \<noteq> [])"
    using False by simp
  from updated_unresolved[OF this, of env] show ?thesis
    by (simp add: w2_def hfield_def)
next
  case True
  then obtain cid uid where r: "customer subscr = Some cid" "cid \<noteq> []"
      "strings w (''stripe:customer:'' @ cid) = Some uid" "uid \<noteq> []" by blast
  define K where "K = USER_SUBSCRIPTION uid"
  define st where "st = obj_status subscr"
  define calls where "calls = [Get (''stripe:customer:'' @ cid), HGetAll K]"
  from updated_resolved[OF r, of env] obtain n where
    "on_subscription_updated env subscr w =
       (received, redis_hset K (updateData_fields env st (hfield w K ''status'' = Some ''trialing'' \<and> st = ''active'') (ticks w))
       (w\<lparr>redis_calls := redis_calls w @ calls, ticks := n\<rparr>))"
    unfolding K_def st_def calls_def by blast
  then have w1: "w1 = redis_hset K (updateData_fields env st (hfield w K ''status'' = Some ''trialing'' \<and> st = ''active'') (ticks w))
       (w\<lparr>redis_calls := redis_calls w @ calls, ticks := n\<rparr>)"
    by (simp add: w1_def)
  have s1: "strings w1 = strings w" by (simp add: w1)
  have st1: "hfield w1 K ''status'' = Some st"
    unfolding w1 by (rule hfield_redis_hset_mem[OF distinct_updateData_fields status_updateData_fields])
  have r1: "strings w1 (''stripe:customer:'' @ cid) = Some uid" using r s1 by simp
  have nt: "(hfield w1 K ''status'' = Some ''trialing'' \<and> st = ''active'') = False"
    unfolding st1 by auto
  define w1' where "w1' m = w1\<lparr>redis_calls := redis_calls w1 @ calls, ticks := m\<rparr>" for m
  from updated_resolved[OF r(1,2) r1 r(4), of env] obtain m where
    "on_subscription_updated env subscr w1 =
       (received, redis_hset K (updateData_fields env st (hfield w1 K ''status'' = Some ''trialing'' \<and> st = ''active'') (ticks w1))
       (w1' m))"
    unfolding K_def st_def calls_def w1'_def by blast
  then have w2: "w2 = redis_hset K (updateData_fields env st False (ticks w1)) (w1' m)"
    unfolding nt by (simp add: w2_def)
  have hf: "hfield (w1' m) k' f' = hfield w1 k' f'" for k' f'
    by (simp add: hfield_def w1'_def)
  have c1: "strings w2 = strings w1" by (simp add: w2 w1'_def)
  have c2: "hfield w2 k f = hfield w1 k f" if nf: "f \<notin> {''lastUpdated'', ''canceledAt'', ''unpaidAt''}"
  proof (cases "map_of (rev (updateData_fields env st False (ticks w1))) f")
    case None
    then show ?thesis
      unfolding w2 by (simp add: hfield_redis_hset hf)
  next
    case (Some v)
    then have "(f, v) \<in> set (updateData_fields env st False (ticks w1))"
      by (auto dest: map_of_SomeD)
    from updateData_fields_cases[OF this] nf
    have v: "v = st" and f: "f \<in> {''status'', ''stripeSubscriptionStatus''}" by blast+
    have "hfield w1 K f = Some st"
      unfolding w1
      by (rule hfield_redis_hset_mem[OF distinct_updateData_fields updateData_fields_status[OF f]])
    then show ?thesis
      unfolding w2 using Some v by (simp add: hfield_redis_hset hf)
  qed
  have c3: "hashes w2 = hashes w1" if clk: "\<forall>i j. now_iso env i = now_iso env j"
  proof -
    have "hashes w2 = hashes (w1' m)"
      unfolding w2
    proof (rule hashes_redis_hset_triv[OF updateData_fields_nonempty])
      fix f' v assume "(f', v) \<in> set (updateData_fields env st False (ticks w1))"
      then have "(f', v) \<in> set (updateData_fields env st (hfield w K ''status'' = Some ''trialing'' \<and> st = ''active'') (ticks w))"
        using updateData_fields_constant_clock[OF clk] by blast
      then have "hfield w1 K f' = Some v"
        unfolding w1 by (rule hfield_redis_hset_mem[OF distinct_updateData_fields])
      then show "hfield (w1' m) K f' = Some v" by (simp add: hf)
    qed
    then show ?thesis by (simp add: w1'_def)
  qed
  show ?thesis using c1 c2 c3 by blast
qed


section \<open>Facts about the webhook route with a store that may throw\<close>

subsection \<open>With a store that answers, the route is that of the first section\<close>

lemma await_Inr [simp]: "await (Inr v, w) rest = rest v w"
  by (simp add: await_def)

lemma await_Inl [simp]: "await (Inl e, w) rest = (Inl e, w)"
  by (simp add: await_def)

lemma redis_get_answers: "redis_get_throwing (\<lambda>n. None) k w = (Inr (fst (redis_get k w)), snd (redis_get k w))"
  by (simp add: redis_get_throwing_def split: prod.split)

lemma redis_hgetall_answers:
  "redis_hgetall_throwing (\<lambda>n. None) k w = (Inr (fst (redis_hgetall k w)), snd (redis_hgetall k w))"
  by (simp add: redis_hgetall_throwing_def split: prod.split)

lemma redis_hset_answers: "redis_hset_throwing (\<lambda>n. None) k fs w = (Inr (), redis_hset k fs w)"
  by (simp add: redis_hset_throwing_def)

lemma setZeroCredits_answers:
  "setZeroCredits_throwing (\<lambda>n. None) env u w = (Inr (), setZeroCredits env u w)"
  by (simp add: setZeroCredits_throwing_def setZeroCredits_def redis_hset_answers split: prod.split)

lemmas store_answers = redis_get_answers redis_hgetall_answers redis_hset_answers setZeroCredits_answers

lemma updated_answers:
  "on_subscription_updated_throwing (\<lambda>n. None) env s w = ok (on_subscription_updated env s w)"
  by (simp add: on_subscription_updated_throwing_def on_subscription_updated_def ok_def store_answers
      Let_def case_prod_beta split: option.split)

lemma deleted_answers:
  "on_subscription_deleted_throwing (\<lambda>n. None) env s w = ok (on_subscription_deleted env s w)"
  by (simp add: on_subscription_deleted_throwing_def on_subscription_deleted_def ok_def store_answers
      Let_def case_prod_beta split: option.split)

lemma trial_will_end_answers:
  "on_trial_will_end_throwing (\<lambda>n. None) env s w = ok (on_trial_will_end env s w)"
  by (simp add: on_trial_will_end_throwing_def on_trial_will_end_def ok_def store_answers
      Let_def case_prod_beta split: option.split)

lemma invoice_payment_succeeded_answers:
  "on_invoice_payment_succeeded_throwing (\<lambda>n. None) env s w = on_invoice_payment_succeeded env s w"
  by (simp add: on_invoice_payment_succeeded_throwing_def on_invoice_payment_succeeded_def store_answers
      Let_def case_prod_beta split: option.split sum.split)

lemma invoice_payment_failed_answers:
  "on_invoice_payment_failed_throwing (\<lambda>n. None) env s w = on_invoice_payment_failed env s w"
  by (simp add: on_invoice_payment_failed_throwing_def on_invoice_payment_failed_def store_answers
      Let_def case_prod_beta split: option.split sum.split)

lemma payment_intent_payment_failed_answers:
  "on_payment_intent_payment_failed_throwing (\<lambda>n. None) env s w = ok (on_payment_intent_payment_failed env s w)"
  by (simp add: on_payment_intent_payment_failed_throwing_def on_payment_intent_payment_failed_def ok_def store_answers
      Let_def case_prod_beta split: option.split sum.split)

lemma payment_intent_canceled_answers:
  "on_payment_intent_canceled_throwing (\<lambda>n. None) env s w = ok (on_payment_intent_canceled env s w)"
  by (simp add: on_payment_intent_canceled_throwing_def on_payment_intent_canceled_def ok_def store_answers
      Let_def case_prod_beta split: option.split sum.split)

lemma setup_intent_setup_failed_answers:
  "on_setup_intent_setup_failed_throwing (\<lambda>n. None) env s w = ok (on_setup_intent_setup_failed env s w)"
  by (simp add: on_setup_intent_setup_failed_throwing_def on_setup_intent_setup_failed_def ok_def store_answers
      Let_def case_prod_beta split: option.split sum.split)

lemma dispatch_answers: "dispatch_throwing (\<lambda>n. None) env ev w = dispatch env ev w"
  by (simp add: dispatch_throwing_def dispatch_def updated_answers deleted_answers
      trial_will_end_answers invoice_payment_succeeded_answers invoice_payment_failed_answers
      payment_intent_payment_failed_answers payment_intent_canceled_answers
      setup_intent_setup_failed_answers)

lemma POST_webhooks_answers:
  "POST_webhooks_throwing (\<lambda>n. None) env request w = POST_webhooks env request w"
  by (simp add: POST_webhooks_throwing_def POST_webhooks_def dispatch_answers handler_failed_def
      split: option.split sum.split prod.split)

subsection \<open>What a handler answers when a call throws\<close>
























section \<open>Facts about the finalization route\<close>

lemma stripe_calls_stripe_called [simp]:
  "stripe_calls (stripe_called c w) = stripe_calls w @ [c]"
  "ticks (stripe_called c w) = ticks w"
  "redis_calls (stripe_called c w) = redis_calls w"
  by (simp_all add: stripe_called_def)

lemma String_nat_credits:
  "String_nat 500 = ''500''" "String_nat 2000 = ''2000''" "String_nat 20 = ''20''"
  by (simp_all add: String_nat.simps digit_def)

lemma String_includes_Nil [simp]: "sub \<noteq> [] \<Longrightarrow> \<not> String_includes [] sub"
  by simp

lemma plan_credits_positive: "plan_credits n > 0"
  by (simp add: plan_credits_def)

lemma plan_credits_eq:
  "plan_credits n = (if String_includes n ''Standard'' then 500
                     else if String_includes n ''Enterprise'' then 2000 else 20)"
  by (cases n) (simp_all add: plan_credits_def)

lemma hfield_grant_credits:
  "hfield (grant_credits env u (plan_credits n) w) (USER_CREDITS u) ''total'' = Some (String_nat (plan_credits n))"
  "hfield (grant_credits env u (plan_credits n) w) (USER_CREDITS u) ''used'' = Some ''0''"
  using plan_credits_positive[of n]
  by (simp_all add: grant_credits_def Date_now_ms_def hfield_redis_hset)

lemma POST_create_subscription_success_ex:
  assumes "status (fst (POST_create_subscription env request w)) = 200"
  shows "\<exists>si coupons w2 sub p product.
           truthy (token_sub request) \<and>
           truthy (priceId request) \<and>
           setupIntents_retrieve env (template (setupIntentId request)) = Inr si \<and>
           subscription_discounts env (promoCodeInfo request)
           (stripe_called (SetupIntentsRetrieve (template (setupIntentId request))) w) = (Inr coupons, w2) \<and>
           subscriptions_create env
           \<lparr>sp_customer = si_customer si, sp_price = template (priceId request),
            default_payment_method = template (payment_method si), discounts = coupons\<rparr> = Inr sub \<and>
           prices_retrieve env (template (priceId request)) = Inr p \<and>
           products_retrieve env (price_product p) = Inr product \<and>
           snd (POST_create_subscription env request w) =
           grant_credits env (template (token_sub request)) (plan_credits (name product))
             (stripe_called (ProductsRetrieve (price_product p))
               (stripe_called (PricesRetrieve (template (priceId request)))
                 (store_subscription (template (token_sub request)) sub (template (priceId request))
                    (promoCodeInfo request)
                    (stripe_called (SubscriptionsCreate
                        \<lparr>sp_customer = si_customer si, sp_price = template (priceId request),
                          default_payment_method = template (payment_method si), discounts = coupons\<rparr>) w2))))"
  using assms
  by (auto simp: POST_create_subscription_def Let_def error_json_def NextResponse_json_def
      split: if_splits sum.splits prod.splits)

lemma POST_create_subscription_success:
  assumes "status (fst (POST_create_subscription env request w)) = 200"
  obtains si coupons w2 sub p product where
    "truthy (token_sub request)"
    and "truthy (priceId request)"
    and "setupIntents_retrieve env (template (setupIntentId request)) = Inr si"
    and "subscription_discounts env (promoCodeInfo request)
           (stripe_called (SetupIntentsRetrieve (template (setupIntentId request))) w) = (Inr coupons, w2)"
    and "subscriptions_create env
           \<lparr>sp_customer = si_customer si, sp_price = template (priceId request),
            default_payment_method = template (payment_method si), discounts = coupons\<rparr> = Inr sub"
    and "prices_retrieve env (template (priceId request)) = Inr p"
    and "products_retrieve env (price_product p) = Inr product"
    and "snd (POST_create_subscription env request w) =
           grant_credits env (template (token_sub request)) (plan_credits (name product))
             (stripe_called (ProductsRetrieve (price_product p))
               (stripe_called (PricesRetrieve (template (priceId request)))
                 (store_subscription (template (token_sub request)) sub (template (priceId request))
                    (promoCodeInfo request)
                    (stripe_called (SubscriptionsCreate
                        \<lparr>sp_customer = si_customer si, sp_price = template (priceId request),
                          default_payment_method = template (payment_method si), discounts = coupons\<rparr>) w2))))"
  using POST_create_subscription_success_ex[OF assms]
  by (elim exE conjE) (rule that; assumption)

lemma store_grant_credits:
  "strings (grant_credits env u c w) = strings w"
  "k \<noteq> USER_CREDITS u \<Longrightarrow> hashes (grant_credits env u c w) k = hashes w k"
  by (simp_all add: grant_credits_def Date_now_ms_def redis_hset_def called_def)

lemma redis_calls_grant_credits:
  "c > 0 \<Longrightarrow> \<exists>fs. redis_calls (grant_credits env u c w) = redis_calls w @ [HSet (USER_CREDITS u) fs]"
  by (simp add: grant_credits_def Date_now_ms_def redis_hset_def called_def)

lemma hashes_store_subscription:
  "hashes (store_subscription u sub pid info w) (USER_SUBSCRIPTION u)
     = Some (hset_fields [] (subscriptionData sub pid info))"
  by (simp add: store_subscription_def redis_hgetall_def redis_hset_def redis_del_def called_def
      Let_def split: option.split)

lemma redis_calls_store_subscription:
  assumes "hashes w (USER_SUBSCRIPTION u) = Some h" and "h \<noteq> []"
  shows "redis_calls (store_subscription u sub pid info w)
     = redis_calls w @ [HGetAll (USER_SUBSCRIPTION u), Del (USER_SUBSCRIPTION u),
                        HSet (USER_SUBSCRIPTION u) (subscriptionData sub pid info)]"
  using assms
  by (simp add: store_subscription_def redis_hgetall_def redis_hset_def redis_del_def called_def
      Let_def)

lemma store_subscription_discounts:
  assumes "subscription_discounts env info w = (r, w')"
  shows "strings w' = strings w" and "hashes w' = hashes w" and "redis_calls w' = redis_calls w"
  using assms
  by (auto simp: subscription_discounts_def Let_def split: option.splits if_splits sum.splits list.splits)

lemma map_of_subscriptionData_plan:
  "map_of (hset_fields [] (subscriptionData sub pid info)) ''plan'' = None"
  by (simp add: map_of_hset_fields subscriptionData_def map_add_def split: option.split)


section \<open>Facts about the setup-intent route\<close>

lemma creates_setup_intent_simps [simp]:
  "creates_setup_intent (xs @ ys) = (creates_setup_intent xs \<or> creates_setup_intent ys)"
  "creates_setup_intent [] = False"
  "creates_setup_intent (c # cs) =
     ((case c of SetupIntentsCreate _ \<Rightarrow> True | _ \<Rightarrow> False) \<or> creates_setup_intent cs)"
  by (simp_all add: creates_setup_intent_def)

lemma retrieves_coupon_simps [simp]:
  "retrieves_coupon (xs @ ys) = (retrieves_coupon xs \<or> retrieves_coupon ys)"
  "retrieves_coupon [] = False"
  "retrieves_coupon (c # cs) =
     ((case c of CouponsRetrieve _ \<Rightarrow> True | _ \<Rightarrow> False) \<or> retrieves_coupon cs)"
  by (simp_all add: retrieves_coupon_def)

lemma fst_allowed_product_names:
  "fst (allowed_product_names env ids w) = retrievable_names env ids"
  by (induction ids arbitrary: w) (simp_all add: Let_def case_prod_beta split: sum.split)

lemma calls_allowed_product_names:
  "creates_setup_intent (stripe_calls (snd (allowed_product_names env ids w)))
     = creates_setup_intent (stripe_calls w)"
  "retrieves_coupon (stripe_calls (snd (allowed_product_names env ids w)))
     = retrieves_coupon (stripe_calls w)"
  by (induction ids arbitrary: w; simp add: Let_def case_prod_beta split: sum.split)+

lemma check_product_restrictions_eq:
  assumes "applies_to c = Some a"
  shows "fst (check_product_restrictions env p a w) =
           (if product_excluded c p
            then Some (error_json (rejection_message env code c p ProductRestriction) 400) else None)"
    and "creates_setup_intent (stripe_calls (snd (check_product_restrictions env p a w)))
           = creates_setup_intent (stripe_calls w)"
    and "retrieves_coupon (stripe_calls (snd (check_product_restrictions env p a w)))
           = retrieves_coupon (stripe_calls w)"
  using assms
  by (simp_all add: check_product_restrictions_def product_excluded_def rejection_message_def
      case_prod_beta fst_allowed_product_names calls_allowed_product_names
      split: option.split)

lemma check_price_restrictions_eq:
  assumes "applies_to c = Some a" and "prices_retrieve env pid = Inr p"
    and "\<forall>ps. prices a = Some ps \<and> ps \<noteq> [] \<and> pid \<notin> set ps \<longrightarrow>
           (\<exists>pr. products_retrieve env (price_product p) = Inr pr)"
  shows "fst (check_price_restrictions env pid p a w) =
           Inr (if price_excluded c pid
                then Some (error_json (rejection_message env code c p PriceRestriction) 400) else None)"
    and "creates_setup_intent (stripe_calls (snd (check_price_restrictions env pid p a w)))
           = creates_setup_intent (stripe_calls w)"
    and "retrieves_coupon (stripe_calls (snd (check_price_restrictions env pid p a w)))
           = retrieves_coupon (stripe_calls w)"
  using assms
  by (auto simp: check_price_restrictions_def price_excluded_def rejection_message_def Let_def
      split: option.splits sum.splits)

lemma check_coupon_eq:
  assumes "prices_retrieve env pid = Inr p"
    and "\<forall>a ps. applies_to c = Some a \<and> prices a = Some ps \<and> ps \<noteq> [] \<and> pid \<notin> set ps \<longrightarrow>
           (\<exists>pr. products_retrieve env (price_product p) = Inr pr)"
  shows "fst (check_coupon env pid p c w) =
           Inr (if product_excluded c p
                then Inl (error_json (rejection_message env code c p ProductRestriction) 400)
                else if price_excluded c pid
                then Inl (error_json (rejection_message env code c p PriceRestriction) 400)
                else if discount_amount env c p = 0
                then Inl (error_json (rejection_message env code c p NonzeroDiscount) 400)
                else Inr (discount_amount env c p))"
    and "creates_setup_intent (stripe_calls (snd (check_coupon env pid p c w)))
           = creates_setup_intent (stripe_calls w)"
proof -
  show "fst (check_coupon env pid p c w) =
           Inr (if product_excluded c p
                then Inl (error_json (rejection_message env code c p ProductRestriction) 400)
                else if price_excluded c pid
                then Inl (error_json (rejection_message env code c p PriceRestriction) 400)
                else if discount_amount env c p = 0
                then Inl (error_json (rejection_message env code c p NonzeroDiscount) 400)
                else Inr (discount_amount env c p))"
  proof (cases "applies_to c")
    case None
    then show ?thesis
      by (simp add: check_coupon_def product_excluded_def price_excluded_def rejection_message_def)
  next
    case (Some a)
    have pl: "\<forall>ps. prices a = Some ps \<and> ps \<noteq> [] \<and> pid \<notin> set ps \<longrightarrow>
           (\<exists>pr. products_retrieve env (price_product p) = Inr pr)"
      using assms(2) Some by blast
    obtain r1 w1 where c1: "check_product_restrictions env p a w = (r1, w1)"
      by (cases "check_product_restrictions env p a w")
    obtain r2 w2 where c2: "check_price_restrictions env pid p a w1 = (r2, w2)"
      by (cases "check_price_restrictions env pid p a w1")
    have r1: "r1 = (if product_excluded c p
            then Some (error_json (rejection_message env code c p ProductRestriction) 400) else None)"
      using check_product_restrictions_eq(1)[OF Some, of env p w code] c1 by simp
    have r2: "r2 = Inr (if price_excluded c pid
                then Some (error_json (rejection_message env code c p PriceRestriction) 400) else None)"
      using check_price_restrictions_eq(1)[OF Some assms(1) pl, of w1 code] c2 by simp
    show ?thesis
      by (simp add: check_coupon_def Some c1 c2 r1 r2 rejection_message_def)
  qed
  show "creates_setup_intent (stripe_calls (snd (check_coupon env pid p c w)))
           = creates_setup_intent (stripe_calls w)"
  proof (cases "applies_to c")
    case None
    then show ?thesis by (simp add: check_coupon_def)
  next
    case (Some a)
    have pl: "\<forall>ps. prices a = Some ps \<and> ps \<noteq> [] \<and> pid \<notin> set ps \<longrightarrow>
           (\<exists>pr. products_retrieve env (price_product p) = Inr pr)"
      using assms(2) Some by blast
    obtain r1 w1 where c1: "check_product_restrictions env p a w = (r1, w1)"
      by (cases "check_product_restrictions env p a w")
    obtain r2 w2 where c2: "check_price_restrictions env pid p a w1 = (r2, w2)"
      by (cases "check_price_restrictions env pid p a w1")
    have 1: "creates_setup_intent (stripe_calls w1) = creates_setup_intent (stripe_calls w)"
      using check_product_restrictions_eq(2)[OF Some, of env p w] c1 by simp
    have 2: "creates_setup_intent (stripe_calls w2) = creates_setup_intent (stripe_calls w1)"
      using check_price_restrictions_eq(2)[OF Some assms(1) pl, of w1] c2 by simp
    show ?thesis
      using 1 2
      by (auto simp: check_coupon_def Some c1 c2 split: option.splits sum.splits)
  qed
qed

lemma validate_promotion_code_eq:
  assumes "promotionCodes_list env code = Inr found"
    and "\<forall>pc rest. found = pc # rest \<longrightarrow> coupons_retrieve env (pc_coupon pc) = Inr c"
    and "prices_retrieve env pid = Inr p"
    and "\<forall>a ps. applies_to c = Some a \<and> prices a = Some ps \<and> ps \<noteq> [] \<and> pid \<notin> set ps \<longrightarrow>
           (\<exists>pr. products_retrieve env (price_product p) = Inr pr)"
  shows "fst (validate_promotion_code env code pid p w) =
           (case first_failing_check env found (Date_now env (ticks w)) c p pid of
              Some chk \<Rightarrow> Inl (error_json (rejection_message env code c p chk) 400)
            | None \<Rightarrow> Inr (case found of pc # _ \<Rightarrow> pc_code pc | [] \<Rightarrow> [], discount_amount env c p, c))"
    and "creates_setup_intent (stripe_calls (snd (validate_promotion_code env code pid p w)))
           = creates_setup_intent (stripe_calls w)"
    and "first_failing_check env found (Date_now env (ticks w)) c p pid \<in> {Some Existence, Some Expiration}
           \<Longrightarrow> retrieves_coupon (stripe_calls (snd (validate_promotion_code env code pid p w)))
                = retrieves_coupon (stripe_calls w)"
proof -
  note cc1 = check_coupon_eq(1)[OF assms(3,4), where code = code]
  note cc2 = check_coupon_eq(2)[OF assms(3,4)]
  show "fst (validate_promotion_code env code pid p w) =
           (case first_failing_check env found (Date_now env (ticks w)) c p pid of
              Some chk \<Rightarrow> Inl (error_json (rejection_message env code c p chk) 400)
            | None \<Rightarrow> Inr (case found of pc # _ \<Rightarrow> pc_code pc | [] \<Rightarrow> [], discount_amount env c p, c))"
  proof (cases found)
    case Nil
    then show ?thesis
      using assms(1)
      by (simp add: validate_promotion_code_def first_failing_check_def rejection_message_def)
  next
    case (Cons pc rest)
    then have cr: "coupons_retrieve env (pc_coupon pc) = Inr c" using assms(2) by blast
    show ?thesis
    proof (cases "expired pc (Date_now env (ticks w))")
      case True
      then show ?thesis
        using assms(1) Cons
        by (auto simp: validate_promotion_code_def first_failing_check_def rejection_message_def
            expired_def Date_now_ms_def Let_def split: option.splits if_splits)
    next
      case False
      have "\<exists>w2. (case expires_at pc of
                None \<Rightarrow> (False, stripe_called (PromotionCodesList code) w)
              | Some e \<Rightarrow>
                  if e = 0 then (False, stripe_called (PromotionCodesList code) w)
                  else (case Date_now_ms env (stripe_called (PromotionCodesList code) w) of
                          (now, w2) \<Rightarrow> (e < int (now div 1000), w2))) = (False, w2)"
        using False
        by (auto simp: expired_def Date_now_ms_def split: option.splits)
      then obtain w2 where w2: "(case expires_at pc of
                None \<Rightarrow> (False, stripe_called (PromotionCodesList code) w)
              | Some e \<Rightarrow>
                  if e = 0 then (False, stripe_called (PromotionCodesList code) w)
                  else (case Date_now_ms env (stripe_called (PromotionCodesList code) w) of
                          (now, w2) \<Rightarrow> (e < int (now div 1000), w2))) = (False, w2)"
        by blast
      obtain r w4 where c4: "check_coupon env pid p c (stripe_called (CouponsRetrieve (pc_coupon pc)) w2) = (r, w4)"
        by (cases "check_coupon env pid p c (stripe_called (CouponsRetrieve (pc_coupon pc)) w2)")
      have r: "r = Inr (if product_excluded c p
                then Inl (error_json (rejection_message env code c p ProductRestriction) 400)
                else if price_excluded c pid
                then Inl (error_json (rejection_message env code c p PriceRestriction) 400)
                else if discount_amount env c p = 0
                then Inl (error_json (rejection_message env code c p NonzeroDiscount) 400)
                else Inr (discount_amount env c p))"
        using cc1[of "stripe_called (CouponsRetrieve (pc_coupon pc)) w2"] c4 by simp
      show ?thesis
        using assms(1) Cons False cr
        by (simp add: validate_promotion_code_def first_failing_check_def Let_def w2 c4 r)
    qed
  qed
  show "creates_setup_intent (stripe_calls (snd (validate_promotion_code env code pid p w)))
           = creates_setup_intent (stripe_calls w)"
    using assms(1,2) cc2
    by (auto simp: validate_promotion_code_def Let_def Date_now_ms_def case_prod_beta
        split: list.splits option.splits sum.splits if_splits)
  show "retrieves_coupon (stripe_calls (snd (validate_promotion_code env code pid p w)))
                = retrieves_coupon (stripe_calls w)"
    if "first_failing_check env found (Date_now env (ticks w)) c p pid \<in> {Some Existence, Some Expiration}"
    using that assms(1)
    by (auto simp: validate_promotion_code_def first_failing_check_def expired_def Let_def
        Date_now_ms_def split: list.splits option.splits if_splits)
qed

lemma find_or_create_customer_ok:
  assumes "case customers_list env u of
         Inl _ \<Rightarrow> False
       | Inr [] \<Rightarrow> (case customers_create env u of Inl _ \<Rightarrow> False | Inr _ \<Rightarrow> True)
       | Inr (_ # _) \<Rightarrow> True"
  shows "\<exists>cust w1. find_or_create_customer env u w = (Inr cust, w1) \<and> ticks w1 = ticks w \<and>
           creates_setup_intent (stripe_calls w1) = creates_setup_intent (stripe_calls w) \<and>
           retrieves_coupon (stripe_calls w1) = retrieves_coupon (stripe_calls w)"
  using assms
  by (auto simp: find_or_create_customer_def Let_def split: sum.splits list.splits)

lemma create_setup_intent_creates:
  "creates_setup_intent (stripe_calls (snd (create_setup_intent env cust pid uid p v w)))"
  by (simp add: create_setup_intent_def Let_def split: sum.split)

lemma create_setup_intent_status:
  assumes "\<forall>ps. \<exists>si. setupIntents_create env ps = Inr si"
    and "products_retrieve env (price_product p) = Inr pr"
  shows "status (fst (create_setup_intent env cust pid uid p v w)) = 200"
proof -
  let ?ps = "\<lparr>sip_customer = cust,
             sip_metadata = [(''priceId'', pid), (''userId'', uid)]
               @ (case (case v of None \<Rightarrow> None | Some (c, d, cp) \<Rightarrow> if c = [] then None else Some c) of
                    None \<Rightarrow> [] | Some c \<Rightarrow> [(''promotionCode'', c)])\<rparr>"
  obtain si where "setupIntents_create env ?ps = Inr si" using assms(1) by blast
  then show ?thesis
    using assms(2)
    by (simp add: create_setup_intent_def Let_def NextResponse_json_def)
qed

lemma POST_checkout_sessions_with_code:
  assumes "reaches_validation env request p"
    and "promotionCodes_list env (template (promotionCode request)) = Inr found"
    and "\<forall>pc rest. found = pc # rest \<longrightarrow> coupons_retrieve env (pc_coupon pc) = Inr c"
    and "\<forall>a ps. applies_to c = Some a \<and> prices a = Some ps \<and> ps \<noteq> [] \<and>
           template (priceId request) \<notin> set ps \<longrightarrow>
           (\<exists>pr. products_retrieve env (price_product p) = Inr pr)"
  shows "first_failing_check env found (Date_now env (ticks w)) c p (template (priceId request)) = Some chk \<Longrightarrow>
           fst (POST_checkout_sessions env request w)
             = error_json (rejection_message env (template (promotionCode request)) c p chk) 400 \<and>
           creates_setup_intent (stripe_calls (snd (POST_checkout_sessions env request w)))
             = creates_setup_intent (stripe_calls w) \<and>
           (chk \<in> {Existence, Expiration} \<longrightarrow>
              retrieves_coupon (stripe_calls (snd (POST_checkout_sessions env request w)))
                = retrieves_coupon (stripe_calls w))"
    and "first_failing_check env found (Date_now env (ticks w)) c p (template (priceId request)) = None \<Longrightarrow>
           creates_setup_intent (stripe_calls (snd (POST_checkout_sessions env request w))) \<and>
           ((\<forall>ps. \<exists>si. setupIntents_create env ps = Inr si) \<and>
            (\<exists>pr. products_retrieve env (price_product p) = Inr pr) \<longrightarrow>
              status (fst (POST_checkout_sessions env request w)) = 200)"
proof -
  let ?pid = "template (priceId request)"
  let ?code = "template (promotionCode request)"
  let ?u = "template (userId request)"
  from assms(1) have rv: "truthy (STRIPE_SECRET_KEY env)" "truthy (priceId request)"
      "truthy (userId request)" "truthy (promotionCode request)"
      "prices_retrieve env ?pid = Inr p"
    and cu: "case customers_list env ?u of
         Inl _ \<Rightarrow> False
       | Inr [] \<Rightarrow> (case customers_create env ?u of Inl _ \<Rightarrow> False | Inr _ \<Rightarrow> True)
       | Inr (_ # _) \<Rightarrow> True"
    by (simp_all add: reaches_validation_def)
  from find_or_create_customer_ok[OF cu, of w] obtain cust w1 where
    fc: "find_or_create_customer env ?u w = (Inr cust, w1)" and t1: "ticks w1 = ticks w"
    and c1: "creates_setup_intent (stripe_calls w1) = creates_setup_intent (stripe_calls w)"
    and k1: "retrieves_coupon (stripe_calls w1) = retrieves_coupon (stripe_calls w)"
    by blast
  let ?w2 = "stripe_called (PricesRetrieve ?pid) w1"
  obtain r w3 where v: "validate_promotion_code env ?code ?pid p ?w2 = (r, w3)"
    by (cases "validate_promotion_code env ?code ?pid p ?w2")
  note val = validate_promotion_code_eq[OF assms(2,3) rv(5) assms(4), of ?w2]
  have post: "POST_checkout_sessions env request w =
      (case r of Inl resp \<Rightarrow> (resp, w3)
       | Inr validated \<Rightarrow> create_setup_intent env cust ?pid ?u p (Some validated) w3)"
    using rv fc v by (simp add: POST_checkout_sessions_def Let_def split: sum.split)
  have t2: "ticks ?w2 = ticks w" using t1 by simp
  have r: "r = (case first_failing_check env found (Date_now env (ticks w)) c p ?pid of
              Some chk \<Rightarrow> Inl (error_json (rejection_message env ?code c p chk) 400)
            | None \<Rightarrow> Inr (case found of pc # _ \<Rightarrow> pc_code pc | [] \<Rightarrow> [], discount_amount env c p, c))"
    using val(1) v t2 by simp
  have c3: "creates_setup_intent (stripe_calls w3) = creates_setup_intent (stripe_calls w)"
    using val(2) v c1 by simp
  show "fst (POST_checkout_sessions env request w)
             = error_json (rejection_message env ?code c p chk) 400 \<and>
           creates_setup_intent (stripe_calls (snd (POST_checkout_sessions env request w)))
             = creates_setup_intent (stripe_calls w) \<and>
           (chk \<in> {Existence, Expiration} \<longrightarrow>
              retrieves_coupon (stripe_calls (snd (POST_checkout_sessions env request w)))
                = retrieves_coupon (stripe_calls w))"
    if f: "first_failing_check env found (Date_now env (ticks w)) c p ?pid = Some chk"
  proof -
    have "retrieves_coupon (stripe_calls w3) = retrieves_coupon (stripe_calls w)"
      if "chk \<in> {Existence, Expiration}"
      using val(3) that f v t2 k1 by auto
    then show ?thesis
      using c3 by (simp add: post r f)
  qed
  show "creates_setup_intent (stripe_calls (snd (POST_checkout_sessions env request w))) \<and>
           ((\<forall>ps. \<exists>si. setupIntents_create env ps = Inr si) \<and>
            (\<exists>pr. products_retrieve env (price_product p) = Inr pr) \<longrightarrow>
              status (fst (POST_checkout_sessions env request w)) = 200)"
    if f: "first_failing_check env found (Date_now env (ticks w)) c p ?pid = None"
    using create_setup_intent_creates create_setup_intent_status
    by (auto simp: post r f)
qed

lemma rejection_message_nonempty:
  assumes "first_failing_check env found now c p pid = Some chk"
    and "products_retrieve env (price_product p) = Inr pr"
  shows "rejection_message env code c p chk \<noteq> []"
  using assms
  by (auto simp: first_failing_check_def rejection_message_def product_excluded_def
      price_excluded_def split: list.splits if_splits option.splits promo_check.splits)

lemma some_check_fails:
  assumes "price_excluded c pid \<or> discount_amount env c p = 0"
  shows "\<exists>chk. first_failing_check env (pc # rest) now c p pid = Some chk"
  using assms by (auto simp: first_failing_check_def)


section \<open>Properties of the webhook route\<close>

subsection \<open>C1: cancellation zeroes the credits\<close>

text \<open>
  C1, as the route implements it. For every verified \<^verbatim>\<open>customer.subscription.deleted\<close> event
  whose customer id is indexed to a user, and provided a subscription record is stored for
  that user, the route acknowledges the event and afterwards the user's credit record has
  \<^verbatim>\<open>total='0'\<close>, \<^verbatim>\<open>used='0'\<close>, \<^verbatim>\<open>resetDate=''\<close> and the subscription record has
  \<^verbatim>\<open>planType='NONE'\<close>, \<^verbatim>\<open>status='canceled'\<close>, \<^verbatim>\<open>amount='0'\<close> and empty Stripe identifiers,
  whatever the two records held before.
\<close>

theorem subscription_deleted_zeroes_credits:
  assumes "configured env" and "verify env request = Some ev"
    and "ev_type ev = ''customer.subscription.deleted''"
    and "customer (data_object ev) = Some cid" and "cid \<noteq> []"
    and "strings w (''stripe:customer:'' @ cid) = Some uid" and "uid \<noteq> []"
    and "hashes w (USER_SUBSCRIPTION uid) = Some h" and "h \<noteq> []"
  shows "fst (POST_webhooks env request w) = received \<and>
         hfield (snd (POST_webhooks env request w)) (USER_CREDITS uid) ''total'' = Some ''0'' \<and>
         hfield (snd (POST_webhooks env request w)) (USER_CREDITS uid) ''used'' = Some ''0'' \<and>
         hfield (snd (POST_webhooks env request w)) (USER_CREDITS uid) ''resetDate'' = Some '''' \<and>
         hfield (snd (POST_webhooks env request w)) (USER_SUBSCRIPTION uid) ''planType'' = Some ''NONE'' \<and>
         hfield (snd (POST_webhooks env request w)) (USER_SUBSCRIPTION uid) ''status'' = Some ''canceled'' \<and>
         hfield (snd (POST_webhooks env request w)) (USER_SUBSCRIPTION uid) ''amount'' = Some ''0'' \<and>
         hfield (snd (POST_webhooks env request w)) (USER_SUBSCRIPTION uid) ''stripeCustomerId'' = Some '''' \<and>
         hfield (snd (POST_webhooks env request w)) (USER_SUBSCRIPTION uid) ''stripeSubscriptionId'' = Some ''''"
proof -
  obtain r w' where rw: "on_subscription_deleted env (data_object ev) w = (r, w')"
    by (cases "on_subscription_deleted env (data_object ev) w")
  have post: "POST_webhooks env request w = (r, w')"
    using assms(1-3) rw by (simp add: POST_verified dispatch_def ok_def)
  show ?thesis
    unfolding post using deleted_effect[OF assms(4-9) rw] by simp
qed

text \<open>
  The theorem at a concrete input: \<^verbatim>\<open>user_42\<close> holds 500 credits, 3 of them used, and an
  active subscription record.
\<close>

theorem subscription_deleted_zeroes_credits_witness:
  "hfield (ex_world (Some [(''status'', ''active'')])) (USER_CREDITS ''user_42'') ''total'' = Some ''500'' \<and>
   hfield (snd (POST_webhooks
                  (ex_env (ex_event ''customer.subscription.deleted'' (Some ''cus_1'') ''canceled'' []))
                  (ex_request ''t=1,v1=ok'') (ex_world (Some [(''status'', ''active'')]))))
      (USER_CREDITS ''user_42'') ''total'' = Some ''0'' \<and>
   hfield (snd (POST_webhooks
                  (ex_env (ex_event ''customer.subscription.deleted'' (Some ''cus_1'') ''canceled'' []))
                  (ex_request ''t=1,v1=ok'') (ex_world (Some [(''status'', ''active'')]))))
      (USER_SUBSCRIPTION ''user_42'') ''status'' = Some ''canceled''"
  using subscription_deleted_zeroes_credits
     [of "ex_env (ex_event ''customer.subscription.deleted'' (Some ''cus_1'') ''canceled'' [])"
      "ex_request ''t=1,v1=ok''" "ex_event ''customer.subscription.deleted'' (Some ''cus_1'') ''canceled'' []"
      "''cus_1''" "ex_world (Some [(''status'', ''active'')])" "''user_42''" "[(''status'', ''active'')]"]
  by (simp add: ex_env_def ex_request_def ex_event_def ex_world_def ex_credits_def configured_def
       verify_def truthy_def webhookSecret_def USER_SUBSCRIPTION_def USER_CREDITS_def hfield_def)

text \<open>
  C1 as worded fails when no subscription record is stored for the user: lines 287 to 291
  return the acknowledgement before anything is written. Here customer \<^verbatim>\<open>cus_1\<close> is indexed
  to \<^verbatim>\<open>user_42\<close>, who has a credit record and no subscription record; after the verified
  deletion event the credit total is still 500.
\<close>

theorem subscription_deleted_without_record_counterexample:
  "configured (ex_env (ex_event ''customer.subscription.deleted'' (Some ''cus_1'') ''canceled'' [])) \<and>
   verify (ex_env (ex_event ''customer.subscription.deleted'' (Some ''cus_1'') ''canceled'' []))
      (ex_request ''t=1,v1=ok'')
     = Some (ex_event ''customer.subscription.deleted'' (Some ''cus_1'') ''canceled'' []) \<and>
   strings (ex_world None) ''stripe:customer:cus_1'' = Some ''user_42'' \<and>
   fst (POST_webhooks
          (ex_env (ex_event ''customer.subscription.deleted'' (Some ''cus_1'') ''canceled'' []))
          (ex_request ''t=1,v1=ok'') (ex_world None)) = received \<and>
   hfield (snd (POST_webhooks
                  (ex_env (ex_event ''customer.subscription.deleted'' (Some ''cus_1'') ''canceled'' []))
                  (ex_request ''t=1,v1=ok'') (ex_world None)))
      (USER_CREDITS ''user_42'') ''total'' = Some ''500''"
  by (simp add: ex_defs on_subscription_deleted_def)

subsection \<open>C2: a request that fails verification\<close>

text \<open>
  C2. A request whose signature is missing, or whose signature is not accepted for the raw
  body, leaves the world as it was: no call to the store (nor to the billing system) is
  made and nothing is written. When the route is configured, the response has status 400.
  (A route without its Stripe key or webhook secret answers 500 before it looks at the
  signature.)
\<close>

theorem invalid_signature_rejected:
  "verify env request = None \<Longrightarrow>
   snd (POST_webhooks env request w) = w \<and>
   redis_calls (snd (POST_webhooks env request w)) = redis_calls w \<and>
   (configured env \<longrightarrow> status (fst (POST_webhooks env request w)) = 400)"
  by (auto simp: configured_def verify_def POST_webhooks_def truthy_def webhookSecret_def
       error_json_def NextResponse_json_def
      split: option.splits sum.splits if_splits)

theorem invalid_signature_rejected_witness:
  "configured (ex_env (ex_event ''customer.subscription.deleted'' (Some ''cus_1'') ''canceled'' [])) \<and>
   verify (ex_env (ex_event ''customer.subscription.deleted'' (Some ''cus_1'') ''canceled'' []))
      (ex_request ''t=1,v1=forged'') = None \<and>
   status (fst (POST_webhooks (ex_env (ex_event ''customer.subscription.deleted'' (Some ''cus_1'') ''canceled'' []))
      (ex_request ''t=1,v1=forged'') (ex_world (Some [(''status'', ''active'')])))) = 400 \<and>
   redis_calls (snd (POST_webhooks (ex_env (ex_event ''customer.subscription.deleted'' (Some ''cus_1'') ''canceled'' []))
      (ex_request ''t=1,v1=forged'') (ex_world (Some [(''status'', ''active'')])))) = []"
  using invalid_signature_rejected
     [of "ex_env (ex_event ''customer.subscription.deleted'' (Some ''cus_1'') ''canceled'' [])"
      "ex_request ''t=1,v1=forged''" "ex_world (Some [(''status'', ''active'')])"]
  by (simp add: ex_env_def ex_request_def ex_event_def ex_world_def configured_def verify_def
       truthy_def webhookSecret_def)

subsection \<open>C3: the same update applied twice\<close>

text \<open>
  C3, as the route implements it. Applying the same verified
  \<^verbatim>\<open>customer.subscription.updated\<close> event a second time leaves the customer index as it was
  and leaves every field of every record as the first application left it, except the time
  stamps \<^verbatim>\<open>lastUpdated\<close>, \<^verbatim>\<open>canceledAt\<close> and \<^verbatim>\<open>unpaidAt\<close>, which take the time of the second
  application; when the clock reads the same throughout, the stored records are identical.
\<close>

theorem subscription_updated_twice:
  assumes "configured env" and "verify env request = Some ev"
    and "ev_type ev = ''customer.subscription.updated''"
  shows "strings (snd (POST_webhooks env request (snd (POST_webhooks env request w))))
           = strings (snd (POST_webhooks env request w)) \<and>
         (\<forall>k f. f \<notin> {''lastUpdated'', ''canceledAt'', ''unpaidAt''} \<longrightarrow>
            hfield (snd (POST_webhooks env request (snd (POST_webhooks env request w)))) k f
              = hfield (snd (POST_webhooks env request w)) k f) \<and>
         ((\<forall>i j. now_iso env i = now_iso env j) \<longrightarrow>
            hashes (snd (POST_webhooks env request (snd (POST_webhooks env request w))))
              = hashes (snd (POST_webhooks env request w)))"
proof -
  have post: "snd (POST_webhooks env request w') = snd (on_subscription_updated env (data_object ev) w')" for w'
    using assms by (simp add: POST_verified dispatch_def ok_def)
  show ?thesis
    unfolding post using updated_twice[of env "data_object ev" w] by blast
qed

text \<open>
  The theorem at a concrete input: the stored status is \<^verbatim>\<open>trialing\<close> and the event reports
  \<^verbatim>\<open>active\<close>; the stamp \<^verbatim>\<open>trialEndedAt\<close> set by the first application survives the second.
\<close>

theorem subscription_updated_twice_witness:
  "hfield (snd (POST_webhooks (ex_env (ex_event ''customer.subscription.updated'' (Some ''cus_1'') ''active'' []))
                  (ex_request ''t=1,v1=ok'')
                  (snd (POST_webhooks (ex_env (ex_event ''customer.subscription.updated'' (Some ''cus_1'') ''active'' []))
                  (ex_request ''t=1,v1=ok'') (ex_world (Some [(''status'', ''trialing'')]))))))
      (USER_SUBSCRIPTION ''user_42'') ''trialEndedAt'' =
   hfield (snd (POST_webhooks (ex_env (ex_event ''customer.subscription.updated'' (Some ''cus_1'') ''active'' []))
                  (ex_request ''t=1,v1=ok'') (ex_world (Some [(''status'', ''trialing'')]))))
      (USER_SUBSCRIPTION ''user_42'') ''trialEndedAt''"
  using subscription_updated_twice
     [of "ex_env (ex_event ''customer.subscription.updated'' (Some ''cus_1'') ''active'' [])"
      "ex_request ''t=1,v1=ok''" "ex_event ''customer.subscription.updated'' (Some ''cus_1'') ''active'' []"
      "ex_world (Some [(''status'', ''trialing'')])"]
  by (simp add: ex_env_def ex_request_def ex_event_def configured_def verify_def truthy_def
       webhookSecret_def)

text \<open>
  C3 as worded fails: the handler stamps \<^verbatim>\<open>lastUpdated\<close> with the time of each application.
  With a clock that has advanced by five seconds between the two applications of the same
  event, the stored subscription record differs.
\<close>

theorem subscription_updated_twice_counterexample:
  "verify (ex_env (ex_event ''customer.subscription.updated'' (Some ''cus_1'') ''active'' []))
      (ex_request ''t=1,v1=ok'')
     = Some (ex_event ''customer.subscription.updated'' (Some ''cus_1'') ''active'' []) \<and>
   hfield (snd (POST_webhooks (ex_env (ex_event ''customer.subscription.updated'' (Some ''cus_1'') ''active'' []))
                  (ex_request ''t=1,v1=ok'') (ex_world (Some [(''status'', ''active'')]))))
      (USER_SUBSCRIPTION ''user_42'') ''lastUpdated'' = Some ''2025-06-01T10:00:00.000Z'' \<and>
   hfield (snd (POST_webhooks (ex_env (ex_event ''customer.subscription.updated'' (Some ''cus_1'') ''active'' []))
                  (ex_request ''t=1,v1=ok'')
                  (snd (POST_webhooks (ex_env (ex_event ''customer.subscription.updated'' (Some ''cus_1'') ''active'' []))
                  (ex_request ''t=1,v1=ok'') (ex_world (Some [(''status'', ''active'')]))))))
      (USER_SUBSCRIPTION ''user_42'') ''lastUpdated'' = Some ''2025-06-01T10:00:05.000Z''"
  by (simp add: ex_defs on_subscription_updated_def)

subsection \<open>C4: the response to a verified event\<close>




subsection \<open>C5: a customer without an entry in the index\<close>

text \<open>
  C5, as the route implements it. The handlers that resolve the user through the customer
  index are those of \<^verbatim>\<open>customer.subscription.updated\<close>, \<^verbatim>\<open>.deleted\<close> and \<^verbatim>\<open>.trial_will_end\<close>,
  which read the customer id off the event, and those of \<^verbatim>\<open>invoice.payment_succeeded\<close>,
  \<^verbatim>\<open>invoice.payment_failed\<close> and \<^verbatim>\<open>setup_intent.setup_failed\<close>, which read it off the
  subscription they retrieve. For these, when the customer id has no entry in the index,
  the event is acknowledged with \<^verbatim>\<open>{received:true}\<close> and neither the index nor any
  subscription or credit record changes.
\<close>

theorem unmapped_customer_acknowledged:
  assumes "configured env" and "verify env request = Some ev"
    and "(ev_type ev \<in> {''customer.subscription.updated'', ''customer.subscription.deleted'',
                         ''customer.subscription.trial_will_end''} \<and>
          customer (data_object ev) = Some cid) \<or>
         (ev_type ev \<in> {''invoice.payment_succeeded'', ''invoice.payment_failed''} \<and>
          (\<exists>sub. subscriptions_retrieve env (template (subscription (data_object ev))) = Inr sub \<and>
                 customer sub = Some cid)) \<or>
         (ev_type ev = ''setup_intent.setup_failed'' \<and>
          (\<exists>sub. subscriptions_retrieve env
                   (template (map_of (metadata (data_object ev)) ''subscription_id'')) = Inr sub \<and>
                 customer sub = Some cid))"
    and "cid \<noteq> []" and "strings w (''stripe:customer:'' @ cid) = None"
  shows "fst (POST_webhooks env request w) = received \<and>
         strings (snd (POST_webhooks env request w)) = strings w \<and>
         hashes (snd (POST_webhooks env request w)) = hashes w"
proof -
  note fst_post = fst_POST_verified[OF assms(1,2), of w]
  note snd_post = snd_POST_verified[OF assms(1,2), of w]
  consider
      (subs) "ev_type ev \<in> {''customer.subscription.updated'', ''customer.subscription.deleted'',
                         ''customer.subscription.trial_will_end''}"
            "customer (data_object ev) = Some cid"
    | (inv) sb where "ev_type ev \<in> {''invoice.payment_succeeded'', ''invoice.payment_failed''}"
            "subscriptions_retrieve env (template (subscription (data_object ev))) = Inr sb"
            "customer sb = Some cid"
    | (stp) sb where "ev_type ev = ''setup_intent.setup_failed''"
            "subscriptions_retrieve env
                   (template (map_of (metadata (data_object ev)) ''subscription_id'')) = Inr sb"
            "customer sb = Some cid"
    using assms(3) by blast
  then show ?thesis
  proof cases
    case subs
    have "fst (POST_webhooks env request w) = received"
      using subs assms(4) by (simp add: fst_post fst_dispatch truthy_def)
    moreover have "strings (snd (POST_webhooks env request w)) = strings w \<and>
         hashes (snd (POST_webhooks env request w)) = hashes w"
      unfolding snd_post snd_dispatch
      using subs(1) unmapped_subscription_handlers[OF subs(2) assms(5), of env]
      by auto
    ultimately show ?thesis by blast
  next
    case inv
    have "fst (POST_webhooks env request w) = received"
      unfolding fst_post fst_dispatch
      using inv by (auto simp: fst_on_invoice_payment_succeeded fst_on_invoice_payment_failed)
    moreover have "strings (snd (POST_webhooks env request w)) = strings w \<and>
         hashes (snd (POST_webhooks env request w)) = hashes w"
      unfolding snd_post snd_dispatch
      using inv(1) unmapped_invoice_handlers[OF inv(2,3) assms(5)]
      by auto
    ultimately show ?thesis by blast
  next
    case stp
    have "fst (POST_webhooks env request w) = received"
      using stp by (simp add: fst_post fst_dispatch)
    moreover have "strings (snd (POST_webhooks env request w)) = strings w \<and>
         hashes (snd (POST_webhooks env request w)) = hashes w"
      unfolding snd_post snd_dispatch
      using stp(1) unmapped_setup_handler[OF stp(2,3) assms(5)]
      by simp
    ultimately show ?thesis by blast
  qed
qed

text \<open>
  The theorem at a concrete input: a deletion event for customer \<^verbatim>\<open>cus_7\<close>, who is not in
  the index.
\<close>

theorem unmapped_customer_acknowledged_witness:
  "strings (ex_world (Some [(''status'', ''active'')])) ''stripe:customer:cus_7'' = None \<and>
   fst (POST_webhooks (ex_env (ex_event ''customer.subscription.deleted'' (Some ''cus_7'') ''canceled'' []))
          (ex_request ''t=1,v1=ok'') (ex_world (Some [(''status'', ''active'')]))) = received \<and>
   hashes (snd (POST_webhooks (ex_env (ex_event ''customer.subscription.deleted'' (Some ''cus_7'') ''canceled'' []))
          (ex_request ''t=1,v1=ok'') (ex_world (Some [(''status'', ''active'')]))))
     = hashes (ex_world (Some [(''status'', ''active'')]))"
  using unmapped_customer_acknowledged
     [of "ex_env (ex_event ''customer.subscription.deleted'' (Some ''cus_7'') ''canceled'' [])"
      "ex_request ''t=1,v1=ok''" "ex_event ''customer.subscription.deleted'' (Some ''cus_7'') ''canceled'' []"
      "''cus_7''" "ex_world (Some [(''status'', ''active'')])"]
  by (simp add: ex_env_def ex_request_def ex_event_def ex_world_def configured_def verify_def
       truthy_def webhookSecret_def)

text \<open>
  C5 as worded fails for the payment-intent events: their handlers take the user id from
  the event's metadata and never consult the index (lines 449 to 469). Here a verified
  \<^verbatim>\<open>payment_intent.payment_failed\<close> event carries customer \<^verbatim>\<open>cus_9\<close>, which has no entry in
  the index, and trial metadata naming \<^verbatim>\<open>user_42\<close>; the credit total of \<^verbatim>\<open>user_42\<close> goes from
  500 to 0.
\<close>

theorem unmapped_customer_payment_intent_counterexample:
  "verify (ex_env (ex_event ''payment_intent.payment_failed'' (Some ''cus_9'') ''requires_payment_method''
                     [(''isTrial'', ''true''), (''userId'', ''user_42'')]))
      (ex_request ''t=1,v1=ok'')
     = Some (ex_event ''payment_intent.payment_failed'' (Some ''cus_9'') ''requires_payment_method''
                     [(''isTrial'', ''true''), (''userId'', ''user_42'')]) \<and>
   strings (ex_world None) ''stripe:customer:cus_9'' = None \<and>
   hfield (ex_world None) (USER_CREDITS ''user_42'') ''total'' = Some ''500'' \<and>
   hfield (snd (POST_webhooks
                  (ex_env (ex_event ''payment_intent.payment_failed'' (Some ''cus_9'') ''requires_payment_method''
                     [(''isTrial'', ''true''), (''userId'', ''user_42'')]))
                  (ex_request ''t=1,v1=ok'') (ex_world None)))
      (USER_CREDITS ''user_42'') ''total'' = Some ''0''"
  by (simp add: ex_defs on_payment_intent_payment_failed_def)


section \<open>Properties of the finalization route\<close>

lemmas ex_billing_defs = ex_env_def ex_json_request_def ex_no_event_def ex_event_def ex_world_def
  ex_credits_def truthy_def template_def template_null_def error_json_def NextResponse_json_def
  POST_create_subscription_def subscription_discounts_def store_subscription_def
  subscriptionData_def grant_credits_def plan_credits_def String_or_empty_def
  USER_SUBSCRIPTION_def USER_CREDITS_def redis_get_def redis_hgetall_def redis_hset_def
  redis_del_def called_def stripe_called_def hfield_def hset_fields_def Date_now_ms_def Let_def

subsection \<open>C6: the credits of a plan\<close>

text \<open>
  C6. When the finalization succeeds, the credit record of the user holds the total that
  the plan table gives for the name of the product of the price, the rows of the table
  read in their order: 500 for a name that contains \<^verbatim>\<open>Standard\<close>, otherwise 2000 for a name
  that contains \<^verbatim>\<open>Enterprise\<close>, otherwise the default 20; and it holds \<^verbatim>\<open>used='0'\<close>.
\<close>

theorem finalization_grants_plan_credits:
  assumes "status (fst (POST_create_subscription env request w)) = 200"
    and "token_sub request = Some uid" and "priceId request = Some pid"
    and "prices_retrieve env pid = Inr p" and "products_retrieve env (price_product p) = Inr product"
  shows "hfield (snd (POST_create_subscription env request w)) (USER_CREDITS uid) ''total''
           = Some (if String_includes (name product) ''Standard'' then ''500''
                   else if String_includes (name product) ''Enterprise'' then ''2000''
                   else ''20'') \<and>
         hfield (snd (POST_create_subscription env request w)) (USER_CREDITS uid) ''used'' = Some ''0''"
proof -
  obtain si coupons w2 sub p' product' where
    "truthy (token_sub request)"
    and "truthy (priceId request)"
    and "setupIntents_retrieve env (template (setupIntentId request)) = Inr si"
    and "subscription_discounts env (promoCodeInfo request)
           (stripe_called (SetupIntentsRetrieve (template (setupIntentId request))) w) = (Inr coupons, w2)"
    and "subscriptions_create env
           \<lparr>sp_customer = si_customer si, sp_price = template (priceId request),
            default_payment_method = template (payment_method si), discounts = coupons\<rparr> = Inr sub"
    and p: "prices_retrieve env (template (priceId request)) = Inr p'"
    and pr: "products_retrieve env (price_product p') = Inr product'"
    and s: "snd (POST_create_subscription env request w) =
           grant_credits env (template (token_sub request)) (plan_credits (name product'))
             (stripe_called (ProductsRetrieve (price_product p'))
               (stripe_called (PricesRetrieve (template (priceId request)))
                 (store_subscription (template (token_sub request)) sub (template (priceId request))
                    (promoCodeInfo request)
                    (stripe_called (SubscriptionsCreate
                        \<lparr>sp_customer = si_customer si, sp_price = template (priceId request),
                          default_payment_method = template (payment_method si), discounts = coupons\<rparr>) w2))))"
    using assms(1) by (rule POST_create_subscription_success)
  have "p' = p" using p assms(3,4) by (simp add: template_def)
  then have "product' = product" using pr assms(5) by simp
  with s assms(2) obtain w' where "snd (POST_create_subscription env request w) =
      grant_credits env uid (plan_credits (name product)) w'"
    by (simp add: template_def)
  then show ?thesis
    by (simp add: hfield_grant_credits) (simp add: plan_credits_eq String_nat_credits)
qed

text \<open>
  The theorem at two concrete inputs: the Standard price and the Enterprise price of the
  example billing system.
\<close>

theorem finalization_grants_plan_credits_witness:
  "status (fst (POST_create_subscription (ex_env ex_no_event)
      (ex_json_request ''seti_1'' ''price_std'' None) (ex_world None))) = 200 \<and>
   String_includes ''Standard Plan'' ''Standard'' \<and>
   hfield (snd (POST_create_subscription (ex_env ex_no_event)
      (ex_json_request ''seti_1'' ''price_std'' None) (ex_world None))) (USER_CREDITS ''user_42'') ''total''
     = Some ''500'' \<and>
   hfield (snd (POST_create_subscription (ex_env ex_no_event)
      (ex_json_request ''seti_1'' ''price_std'' None) (ex_world None))) (USER_CREDITS ''user_42'') ''used''
     = Some ''0'' \<and>
   status (fst (POST_create_subscription (ex_env ex_no_event)
      (ex_json_request ''seti_1'' ''price_ent'' None) (ex_world None))) = 200 \<and>
   \<not> String_includes ''Enterprise Plan'' ''Standard'' \<and>
   String_includes ''Enterprise Plan'' ''Enterprise'' \<and>
   hfield (snd (POST_create_subscription (ex_env ex_no_event)
      (ex_json_request ''seti_1'' ''price_ent'' None) (ex_world None))) (USER_CREDITS ''user_42'') ''total''
     = Some ''2000''"
  using finalization_grants_plan_credits[of "ex_env ex_no_event" "ex_json_request ''seti_1'' ''price_std'' None" "ex_world None"
      "''user_42''" "''price_std''"
      "\<lparr>price_product = ''prod_std'', unit_amount = Some 1500, recurring_interval = Some ''month''\<rparr>"
      "\<lparr>name = ''Standard Plan''\<rparr>"]
    finalization_grants_plan_credits[of "ex_env ex_no_event" "ex_json_request ''seti_1'' ''price_ent'' None" "ex_world None"
      "''user_42''" "''price_ent''"
      "\<lparr>price_product = ''prod_ent'', unit_amount = Some 9900, recurring_interval = Some ''month''\<rparr>"
      "\<lparr>name = ''Enterprise Plan''\<rparr>"]
  by (simp add: ex_billing_defs)

subsection \<open>C9: the setup intent must have succeeded\<close>

text \<open>
  C9. For an authenticated request with its parameters, on a configured route, whose setup
  intent the billing system retrieves: when the setup intent is not in status
  \<^verbatim>\<open>succeeded\<close> or has no payment method, the response has status 400, the only call made
  is the retrieval of the setup intent (no subscription is created) and the store is
  neither called nor changed. When the request succeeds, the subscription record of the
  user afterwards holds exactly the new fields, and if a record existed before, the calls
  to the store are, in this order: reading it, deleting it, writing the new fields, writing
  the credits.
\<close>

theorem finalization_requires_succeeded_setup_intent:
  assumes "truthy (token_sub request)" and "truthy (STRIPE_SECRET_KEY env)"
    and "truthy (setupIntentId request)" and "truthy (priceId request)"
    and "setupIntents_retrieve env (template (setupIntentId request)) = Inr si"
  shows "(si_status si \<noteq> ''succeeded'' \<or> \<not> truthy (payment_method si) \<longrightarrow>
            status (fst (POST_create_subscription env request w)) = 400 \<and>
            redis_calls (snd (POST_create_subscription env request w)) = redis_calls w \<and>
            strings (snd (POST_create_subscription env request w)) = strings w \<and>
            hashes (snd (POST_create_subscription env request w)) = hashes w \<and>
            stripe_calls (snd (POST_create_subscription env request w))
              = stripe_calls w @ [SetupIntentsRetrieve (template (setupIntentId request))]) \<and>
         (status (fst (POST_create_subscription env request w)) = 200 \<longrightarrow>
            (\<exists>sub. hashes (snd (POST_create_subscription env request w))
                      (USER_SUBSCRIPTION (template (token_sub request)))
                    = Some (hset_fields [] (subscriptionData sub (template (priceId request))
                                              (promoCodeInfo request))) \<and>
                   (\<forall>h. hashes w (USER_SUBSCRIPTION (template (token_sub request))) = Some h \<and> h \<noteq> [] \<longrightarrow>
                      (\<exists>credits.
                         redis_calls (snd (POST_create_subscription env request w))
                           = redis_calls w @
                             [HGetAll (USER_SUBSCRIPTION (template (token_sub request))),
                              Del (USER_SUBSCRIPTION (template (token_sub request))),
                              HSet (USER_SUBSCRIPTION (template (token_sub request)))
                                (subscriptionData sub (template (priceId request)) (promoCodeInfo request)),
                              HSet (USER_CREDITS (template (token_sub request))) credits]))))"
proof (intro conjI impI)
  assume bad: "si_status si \<noteq> ''succeeded'' \<or> \<not> truthy (payment_method si)"
  have "POST_create_subscription env request w =
      (error_json (''Invalid setup intent: status='' @ si_status si
                     @ '', payment_method='' @ template_null (payment_method si)) 400,
       stripe_called (SetupIntentsRetrieve (template (setupIntentId request))) w)"
    using assms bad by (simp add: POST_create_subscription_def Let_def)
  then show "status (fst (POST_create_subscription env request w)) = 400"
    and "redis_calls (snd (POST_create_subscription env request w)) = redis_calls w"
    and "strings (snd (POST_create_subscription env request w)) = strings w"
    and "hashes (snd (POST_create_subscription env request w)) = hashes w"
    and "stripe_calls (snd (POST_create_subscription env request w))
              = stripe_calls w @ [SetupIntentsRetrieve (template (setupIntentId request))]"
    by (simp_all add: error_json_def NextResponse_json_def stripe_called_def)
next
  let ?u = "template (token_sub request)"
  let ?pid = "template (priceId request)"
  assume "status (fst (POST_create_subscription env request w)) = 200"
  then obtain si' coupons w2 sub p product where
    "truthy (token_sub request)"
    and "truthy (priceId request)"
    and "setupIntents_retrieve env (template (setupIntentId request)) = Inr si'"
    and d: "subscription_discounts env (promoCodeInfo request)
           (stripe_called (SetupIntentsRetrieve (template (setupIntentId request))) w) = (Inr coupons, w2)"
    and "subscriptions_create env
           \<lparr>sp_customer = si_customer si', sp_price = ?pid,
            default_payment_method = template (payment_method si'), discounts = coupons\<rparr> = Inr sub"
    and "prices_retrieve env (?pid) = Inr p"
    and "products_retrieve env (price_product p) = Inr product"
    and s: "snd (POST_create_subscription env request w) =
           grant_credits env (?u) (plan_credits (name product))
             (stripe_called (ProductsRetrieve (price_product p))
               (stripe_called (PricesRetrieve (?pid))
                 (store_subscription (?u) sub (?pid)
                    (promoCodeInfo request)
                    (stripe_called (SubscriptionsCreate
                        \<lparr>sp_customer = si_customer si', sp_price = ?pid,
                          default_payment_method = template (payment_method si'), discounts = coupons\<rparr>) w2))))"
    by (rule POST_create_subscription_success)
  note d' = store_subscription_discounts[OF d]
  have 1: "hashes (snd (POST_create_subscription env request w)) (USER_SUBSCRIPTION ?u)
           = Some (hset_fields [] (subscriptionData sub ?pid (promoCodeInfo request)))"
    unfolding s by (simp add: store_grant_credits keys_differ hashes_store_subscription)
  have 2: "\<exists>credits. redis_calls (snd (POST_create_subscription env request w))
                           = redis_calls w @
                             [HGetAll (USER_SUBSCRIPTION ?u), Del (USER_SUBSCRIPTION ?u),
                              HSet (USER_SUBSCRIPTION ?u) (subscriptionData sub ?pid (promoCodeInfo request)),
                              HSet (USER_CREDITS ?u) credits]"
    if h: "hashes w (USER_SUBSCRIPTION ?u) = Some h \<and> h \<noteq> []" for h
  proof -
    let ?w3 = "stripe_called (SubscriptionsCreate
                          \<lparr>sp_customer = si_customer si', sp_price = ?pid,
                            default_payment_method = template (payment_method si'), discounts = coupons\<rparr>) w2"
    have "hashes ?w3 (USER_SUBSCRIPTION ?u) = Some h" using h d' by simp
    from redis_calls_store_subscription[OF this, of sub ?pid "promoCodeInfo request"] h
    have "redis_calls (store_subscription ?u sub ?pid (promoCodeInfo request) ?w3)
            = redis_calls w @ [HGetAll (USER_SUBSCRIPTION ?u), Del (USER_SUBSCRIPTION ?u),
                        HSet (USER_SUBSCRIPTION ?u) (subscriptionData sub ?pid (promoCodeInfo request))]"
      using d' by simp
    with redis_calls_grant_credits[OF plan_credits_positive, of env ?u "name product"]
    show ?thesis unfolding s by (metis append.assoc append_Cons append_Nil stripe_calls_stripe_called(3))
  qed
  show "\<exists>sub. hashes (snd (POST_create_subscription env request w))
                      (USER_SUBSCRIPTION (template (token_sub request)))
                    = Some (hset_fields [] (subscriptionData sub (template (priceId request))
                                              (promoCodeInfo request))) \<and>
                   (\<forall>h. hashes w (USER_SUBSCRIPTION (template (token_sub request))) = Some h \<and> h \<noteq> [] \<longrightarrow>
                      (\<exists>credits.
                         redis_calls (snd (POST_create_subscription env request w))
                           = redis_calls w @
                             [HGetAll (USER_SUBSCRIPTION (template (token_sub request))),
                              Del (USER_SUBSCRIPTION (template (token_sub request))),
                              HSet (USER_SUBSCRIPTION (template (token_sub request)))
                                (subscriptionData sub (template (priceId request)) (promoCodeInfo request)),
                              HSet (USER_CREDITS (template (token_sub request))) credits]))"
    using 1 2 by blast
qed

text \<open>
  The theorem at two concrete inputs: a setup intent that still requires a payment method,
  and a succeeded one for a user whose old subscription record has a field \<^verbatim>\<open>plan\<close>, which
  the new record does not have.
\<close>

theorem finalization_requires_succeeded_setup_intent_witness:
  "status (fst (POST_create_subscription (ex_env ex_no_event)
      (ex_json_request ''seti_2'' ''price_std'' None) (ex_world (Some [(''plan'', ''Old Plan'')])))) = 400 \<and>
   redis_calls (snd (POST_create_subscription (ex_env ex_no_event)
      (ex_json_request ''seti_2'' ''price_std'' None) (ex_world (Some [(''plan'', ''Old Plan'')])))) = [] \<and>
   hfield (ex_world (Some [(''plan'', ''Old Plan'')])) (USER_SUBSCRIPTION ''user_42'') ''plan''
     = Some ''Old Plan'' \<and>
   status (fst (POST_create_subscription (ex_env ex_no_event)
      (ex_json_request ''seti_1'' ''price_std'' None) (ex_world (Some [(''plan'', ''Old Plan'')])))) = 200 \<and>
   hfield (snd (POST_create_subscription (ex_env ex_no_event)
      (ex_json_request ''seti_1'' ''price_std'' None) (ex_world (Some [(''plan'', ''Old Plan'')]))))
     (USER_SUBSCRIPTION ''user_42'') ''plan'' = None"
proof -
  have s: "status (fst (POST_create_subscription (ex_env ex_no_event)
      (ex_json_request ''seti_1'' ''price_std'' None) (ex_world (Some [(''plan'', ''Old Plan'')])))) = 200"
    by (simp add: ex_billing_defs)
  show ?thesis
    using finalization_requires_succeeded_setup_intent[of "ex_json_request ''seti_2'' ''price_std'' None" "ex_env ex_no_event"
        "\<lparr>si_status = ''requires_payment_method'', payment_method = None, si_customer = Some ''cus_1''\<rparr>"
        "ex_world (Some [(''plan'', ''Old Plan'')])"]
      finalization_requires_succeeded_setup_intent[of "ex_json_request ''seti_1'' ''price_std'' None" "ex_env ex_no_event"
        "\<lparr>si_status = ''succeeded'', payment_method = Some ''pm_1'', si_customer = Some ''cus_1''\<rparr>"
        "ex_world (Some [(''plan'', ''Old Plan'')])"]
      s
    by (auto simp: ex_env_def ex_json_request_def ex_world_def truthy_def template_def hfield_def
        USER_SUBSCRIPTION_def map_of_subscriptionData_plan)
qed


section \<open>Properties of the setup-intent route\<close>

subsection \<open>C7: the order of the checks\<close>

text \<open>
  C7. For a request that reaches the validation of its promotion code, with the lookups of
  the billing system answering (the list for the code, the coupon of a found code, the
  product of the price): the response is decided by the first check that fails in the
  order existence, expiration, product restriction, price restriction, nonzero discount.
  That check rejects with status 400 and its own non-empty message, whatever the later
  checks would say; no setup intent is created; and when the existence or the expiration
  check fails the coupon is not even retrieved. When no check fails, the route goes on to
  create the setup intent. The discount of the last check is the one the route computes in
  lines 210 to 217: the amount taken off, or else the percentage of the unit amount as
  the platform rounds it in doubles.
\<close>

theorem promotion_code_checks_in_order:
  assumes "reaches_validation env request p"
    and "promotionCodes_list env (template (promotionCode request)) = Inr found"
    and "\<forall>pc rest. found = pc # rest \<longrightarrow> coupons_retrieve env (pc_coupon pc) = Inr c"
    and "products_retrieve env (price_product p) = Inr pr"
  shows "case first_failing_check env found (Date_now env (ticks w)) c p (template (priceId request)) of
           Some chk \<Rightarrow>
             fst (POST_checkout_sessions env request w)
               = error_json (rejection_message env (template (promotionCode request)) c p chk) 400 \<and>
             rejection_message env (template (promotionCode request)) c p chk \<noteq> [] \<and>
             creates_setup_intent (stripe_calls (snd (POST_checkout_sessions env request w)))
               = creates_setup_intent (stripe_calls w) \<and>
             (chk \<in> {Existence, Expiration} \<longrightarrow>
                retrieves_coupon (stripe_calls (snd (POST_checkout_sessions env request w)))
                  = retrieves_coupon (stripe_calls w))
         | None \<Rightarrow>
             creates_setup_intent (stripe_calls (snd (POST_checkout_sessions env request w)))"
proof -
  have lk: "\<forall>a ps. applies_to c = Some a \<and> prices a = Some ps \<and> ps \<noteq> [] \<and>
           template (priceId request) \<notin> set ps \<longrightarrow>
           (\<exists>pr. products_retrieve env (price_product p) = Inr pr)"
    using assms(4) by blast
  note post = POST_checkout_sessions_with_code[OF assms(1-3) lk, of w]
  show ?thesis
  proof (cases "first_failing_check env found (Date_now env (ticks w)) c p (template (priceId request))")
    case None
    then show ?thesis using post(2) by simp
  next
    case (Some chk)
    then show ?thesis
      using post(1)[OF Some] rejection_message_nonempty[OF Some assms(4)] by simp
  qed
qed

text \<open>
  The theorem at two concrete inputs: a code the billing system does not know, and the code
  \<^verbatim>\<open>SAVE5\<close>, which passes every check.
\<close>

theorem promotion_code_checks_in_order_witness:
  "reaches_validation (ex_env ex_no_event) (ex_json_request ''seti_1'' ''price_std'' (Some ''NOPE''))
     \<lparr>price_product = ''prod_std'', unit_amount = Some 1500, recurring_interval = Some ''month''\<rparr> \<and>
   fst (POST_checkout_sessions (ex_env ex_no_event)
          (ex_json_request ''seti_1'' ''price_std'' (Some ''NOPE'')) (ex_world None))
     = error_json ''Promo code \"NOPE\" is invalid or inactive'' 400 \<and>
   \<not> retrieves_coupon (stripe_calls (snd (POST_checkout_sessions (ex_env ex_no_event)
          (ex_json_request ''seti_1'' ''price_std'' (Some ''NOPE'')) (ex_world None)))) \<and>
   creates_setup_intent (stripe_calls (snd (POST_checkout_sessions (ex_env ex_no_event)
          (ex_json_request ''seti_1'' ''price_std'' (Some ''SAVE5'')) (ex_world None))))"
  using promotion_code_checks_in_order[of "ex_env ex_no_event" "ex_json_request ''seti_1'' ''price_std'' (Some ''NOPE'')"
      "\<lparr>price_product = ''prod_std'', unit_amount = Some 1500, recurring_interval = Some ''month''\<rparr>"
      "[]" "\<lparr>cp_id = ''co_5'', amount_off = Some 500, percent_off = None, applies_to = None\<rparr>"
      "\<lparr>name = ''Standard Plan''\<rparr>" "ex_world None"]
    promotion_code_checks_in_order[of "ex_env ex_no_event" "ex_json_request ''seti_1'' ''price_std'' (Some ''SAVE5'')"
      "\<lparr>price_product = ''prod_std'', unit_amount = Some 1500, recurring_interval = Some ''month''\<rparr>"
      "[\<lparr>pc_id = ''promo_1'', pc_code = ''SAVE5'', expires_at = None, pc_coupon = ''co_5''\<rparr>]"
      "\<lparr>cp_id = ''co_5'', amount_off = Some 500, percent_off = None, applies_to = None\<rparr>"
      "\<lparr>name = ''Standard Plan''\<rparr>" "ex_world None"]
  by (simp add: ex_env_def ex_json_request_def ex_world_def reaches_validation_def truthy_def
      template_def first_failing_check_def rejection_message_def expired_def product_excluded_def
      price_excluded_def discount_amount_def)

subsection \<open>C8: an empty list of prices\<close>

text \<open>
  C8. For a request that reaches the validation, with a promotion code that is found and
  whose coupon is retrieved: when the coupon carries a present but empty
  \<^verbatim>\<open>applies_to.prices\<close>, the response has status 400 whatever price is requested, and no
  setup intent is created.
\<close>

theorem empty_price_list_rejects:
  assumes "reaches_validation env request p"
    and "promotionCodes_list env (template (promotionCode request)) = Inr (pc # rest)"
    and "coupons_retrieve env (pc_coupon pc) = Inr c"
    and "applies_to c = Some a" and "prices a = Some []"
  shows "status (fst (POST_checkout_sessions env request w)) = 400 \<and>
         creates_setup_intent (stripe_calls (snd (POST_checkout_sessions env request w)))
           = creates_setup_intent (stripe_calls w)"
proof -
  have cr: "\<forall>pc' rest'. pc # rest = pc' # rest' \<longrightarrow> coupons_retrieve env (pc_coupon pc') = Inr c"
    using assms(3) by simp
  have lk: "\<forall>a ps. applies_to c = Some a \<and> prices a = Some ps \<and> ps \<noteq> [] \<and>
           template (priceId request) \<notin> set ps \<longrightarrow>
           (\<exists>pr. products_retrieve env (price_product p) = Inr pr)"
    using assms(4,5) by simp
  have "price_excluded c (template (priceId request))"
    using assms(4,5) by (simp add: price_excluded_def)
  then obtain chk where
    "first_failing_check env (pc # rest) (Date_now env (ticks w)) c p (template (priceId request)) = Some chk"
    using some_check_fails by blast
  from POST_checkout_sessions_with_code(1)[OF assms(1,2) cr lk this]
  show ?thesis by (simp add: error_json_def NextResponse_json_def)
qed

theorem empty_price_list_rejects_witness:
  "reaches_validation (ex_env ex_no_event) (ex_json_request ''seti_1'' ''price_std'' (Some ''NOPRICES''))
     \<lparr>price_product = ''prod_std'', unit_amount = Some 1500, recurring_interval = Some ''month''\<rparr> \<and>
   status (fst (POST_checkout_sessions (ex_env ex_no_event)
          (ex_json_request ''seti_1'' ''price_std'' (Some ''NOPRICES'')) (ex_world None))) = 400 \<and>
   \<not> creates_setup_intent (stripe_calls (snd (POST_checkout_sessions (ex_env ex_no_event)
          (ex_json_request ''seti_1'' ''price_std'' (Some ''NOPRICES'')) (ex_world None))))"
  using empty_price_list_rejects[of "ex_env ex_no_event" "ex_json_request ''seti_1'' ''price_std'' (Some ''NOPRICES'')"
      "\<lparr>price_product = ''prod_std'', unit_amount = Some 1500, recurring_interval = Some ''month''\<rparr>"
      "\<lparr>pc_id = ''promo_2'', pc_code = ''NOPRICES'', expires_at = None, pc_coupon = ''co_prices''\<rparr>" "[]"
      "\<lparr>cp_id = ''co_prices'', amount_off = Some 500, percent_off = None,
         applies_to = Some \<lparr>products = None, prices = Some []\<rparr>\<rparr>"
      "\<lparr>products = None, prices = Some []\<rparr>" "ex_world None"]
  by (simp add: ex_env_def ex_json_request_def ex_world_def reaches_validation_def truthy_def
      template_def)

subsection \<open>C10: an empty list of products\<close>

text \<open>
  C10. For a request that reaches the validation, with a promotion code that is found and
  not expired, whose coupon carries a present but empty \<^verbatim>\<open>applies_to.products\<close>, and with
  the billing system answering: whatever the product of the requested price, the product
  check does not reject, and the request is accepted or rejected by the remaining checks
  alone. It is rejected (400) exactly when the price list is present and does not contain
  the requested price (as an empty price list never does) or the discount that the route
  computes in lines 210 to 217 is zero, and accepted (200) otherwise.
\<close>

theorem empty_product_list_unrestricted:
  assumes "reaches_validation env request p"
    and "promotionCodes_list env (template (promotionCode request)) = Inr (pc # rest)"
    and "\<not> expired pc (Date_now env (ticks w))"
    and "coupons_retrieve env (pc_coupon pc) = Inr c"
    and "applies_to c = Some a" and "products a = Some []"
    and "products_retrieve env (price_product p) = Inr pr"
    and "\<forall>ps. \<exists>si. setupIntents_create env ps = Inr si"
  shows "status (fst (POST_checkout_sessions env request w)) =
           (if (case prices a of None \<Rightarrow> False | Some ps \<Rightarrow> template (priceId request) \<notin> set ps) \<or>
               discount_amount env c p = 0
            then 400 else 200)"
proof -
  let ?pid = "template (priceId request)"
  have cr: "\<forall>pc' rest'. pc # rest = pc' # rest' \<longrightarrow> coupons_retrieve env (pc_coupon pc') = Inr c"
    using assms(4) by simp
  have lk: "\<forall>a ps. applies_to c = Some a \<and> prices a = Some ps \<and> ps \<noteq> [] \<and> ?pid \<notin> set ps \<longrightarrow>
           (\<exists>pr. products_retrieve env (price_product p) = Inr pr)"
    using assms(7) by blast
  note post = POST_checkout_sessions_with_code[OF assms(1,2) cr lk, of w]
  have np: "\<not> product_excluded c p"
    using assms(5,6) by (simp add: product_excluded_def)
  have pe: "price_excluded c ?pid = (case prices a of None \<Rightarrow> False | Some ps \<Rightarrow> ?pid \<notin> set ps)"
    using assms(5) by (simp add: price_excluded_def)
  show ?thesis
  proof (cases "price_excluded c ?pid \<or> discount_amount env c p = 0")
    case True
    then obtain chk where
      "first_failing_check env (pc # rest) (Date_now env (ticks w)) c p ?pid = Some chk"
      using some_check_fails by blast
    from post(1)[OF this] True show ?thesis
      by (simp add: pe error_json_def NextResponse_json_def)
  next
    case False
    then have "first_failing_check env (pc # rest) (Date_now env (ticks w)) c p ?pid = None"
      using assms(3) np by (simp add: first_failing_check_def)
    from post(2)[OF this] assms(7,8) False show ?thesis
      by (auto simp: pe)
  qed
qed

text \<open>
  The theorem at a concrete input: the code \<^verbatim>\<open>NOPRODUCTS\<close>, whose coupon has an empty list
  of products and takes 5.00 off, is accepted for the Standard price.
\<close>

theorem empty_product_list_unrestricted_witness:
  "reaches_validation (ex_env ex_no_event) (ex_json_request ''seti_1'' ''price_std'' (Some ''NOPRODUCTS''))
     \<lparr>price_product = ''prod_std'', unit_amount = Some 1500, recurring_interval = Some ''month''\<rparr> \<and>
   status (fst (POST_checkout_sessions (ex_env ex_no_event)
          (ex_json_request ''seti_1'' ''price_std'' (Some ''NOPRODUCTS'')) (ex_world None))) = 200"
  using empty_product_list_unrestricted[of "ex_env ex_no_event" "ex_json_request ''seti_1'' ''price_std'' (Some ''NOPRODUCTS'')"
      "\<lparr>price_product = ''prod_std'', unit_amount = Some 1500, recurring_interval = Some ''month''\<rparr>"
      "\<lparr>pc_id = ''promo_3'', pc_code = ''NOPRODUCTS'', expires_at = None, pc_coupon = ''co_products''\<rparr>" "[]"
      "ex_world None"
      "\<lparr>cp_id = ''co_products'', amount_off = Some 500, percent_off = None,
         applies_to = Some \<lparr>products = Some [], prices = None\<rparr>\<rparr>"
      "\<lparr>products = Some [], prices = None\<rparr>" "\<lparr>name = ''Standard Plan''\<rparr>"]
  by (simp add: ex_env_def ex_json_request_def ex_world_def reaches_validation_def truthy_def
      template_def expired_def discount_amount_def)


end
